theory Spec2Isabelle
  imports Complex_Main
begin

section \<open>JavaScript values\<close>

text \<open>
  A JavaScript number is a finite value, \<open>NaN\<close> or one of the two infinities.  Finite
  values are modelled by exact reals: comparison, \<open>Math.floor\<close>, \<open>Math.ceil\<close>,
  \<open>Math.round\<close> and \<open>Math.abs\<close> are exact on doubles, and the remaining arithmetic is
  taken without the rounding of IEEE-754 (and without signed zeros), except in the tick
  generator of the logarithmic scale and in the formatters \<open>exponential\<close> and
  \<open>percentage\<close>.  There the platform's operation is a parameter of the function that
  uses it: \<open>lg x\<close> is the double that \<open>Math.log\<close> returns for a positive finite
  \<open>x\<close>, \<open>dv a b\<close> the double that the division \<open>a / b\<close> returns and \<open>mul a b\<close>
  the double that the product \<open>a * b\<close> returns, for finite operands (\<open>b\<close> nonzero in
  the division).
\<close>

datatype number = Fin real | NaN | PosInf | NegInf

text \<open>A string is its list of UTF-16 code units; \<open>ascii\<close> embeds an ASCII literal.\<close>

type_synonym jsstring = "nat list"

definition ascii :: "string \<Rightarrow> jsstring" where
  "ascii s = map of_char s"

datatype error = RangeError jsstring | TypeError

fun nless :: "number \<Rightarrow> number \<Rightarrow> bool" where
  "nless (Fin a) (Fin b) = (a < b)"
| "nless (Fin a) PosInf = True"
| "nless NegInf (Fin b) = True"
| "nless NegInf PosInf = True"
| "nless _ _ = False"

fun ndiv :: "number \<Rightarrow> number \<Rightarrow> number" where
  "ndiv (Fin a) (Fin b) =
     (if b = 0 then (if a = 0 then NaN else if 0 < a then PosInf else NegInf)
      else Fin (a / b))"
| "ndiv (Fin a) PosInf = Fin 0"
| "ndiv (Fin a) NegInf = Fin 0"
| "ndiv PosInf (Fin b) = (if 0 \<le> b then PosInf else NegInf)"
| "ndiv NegInf (Fin b) = (if 0 \<le> b then NegInf else PosInf)"
| "ndiv _ _ = NaN"

fun Math_floor :: "number \<Rightarrow> number" where
  "Math_floor (Fin a) = Fin (of_int \<lfloor>a\<rfloor>)"
| "Math_floor n = n"

fun Math_ceil :: "number \<Rightarrow> number" where
  "Math_ceil (Fin a) = Fin (of_int \<lceil>a\<rceil>)"
| "Math_ceil n = n"

text \<open>\<open>Math.log\<close> of a finite number: \<open>NaN\<close> below zero, \<open>-Infinity\<close> at zero.\<close>

definition Math_log :: "(real \<Rightarrow> real) \<Rightarrow> real \<Rightarrow> number" where
  "Math_log lg x = (if x < 0 then NaN else if x = 0 then NegInf else Fin (lg x))"

fun nmul :: "number \<Rightarrow> number \<Rightarrow> number" where
  "nmul (Fin a) (Fin b) = Fin (a * b)"
| "nmul NaN _ = NaN"
| "nmul _ NaN = NaN"
| "nmul (Fin a) PosInf = (if a = 0 then NaN else if 0 < a then PosInf else NegInf)"
| "nmul (Fin a) NegInf = (if a = 0 then NaN else if 0 < a then NegInf else PosInf)"
| "nmul PosInf (Fin b) = (if b = 0 then NaN else if 0 < b then PosInf else NegInf)"
| "nmul NegInf (Fin b) = (if b = 0 then NaN else if 0 < b then NegInf else PosInf)"
| "nmul PosInf PosInf = PosInf"
| "nmul NegInf NegInf = PosInf"
| "nmul PosInf NegInf = NegInf"
| "nmul NegInf PosInf = NegInf"

text \<open>Division and multiplication through the platform's operation on finite operands.\<close>

fun fdivn :: "(real \<Rightarrow> real \<Rightarrow> real) \<Rightarrow> number \<Rightarrow> number \<Rightarrow> number" where
  "fdivn dv (Fin a) (Fin b) =
     (if b = 0 then (if a = 0 then NaN else if 0 < a then PosInf else NegInf)
      else Fin (dv a b))"
| "fdivn dv (Fin a) PosInf = Fin 0"
| "fdivn dv (Fin a) NegInf = Fin 0"
| "fdivn dv PosInf (Fin b) = (if 0 \<le> b then PosInf else NegInf)"
| "fdivn dv NegInf (Fin b) = (if 0 \<le> b then NegInf else PosInf)"
| "fdivn dv _ _ = NaN"

fun fmuln :: "(real \<Rightarrow> real \<Rightarrow> real) \<Rightarrow> number \<Rightarrow> number \<Rightarrow> number" where
  "fmuln mul (Fin a) (Fin b) = Fin (mul a b)"
| "fmuln mul a b = nmul a b"

fun nneg :: "number \<Rightarrow> number" where
  "nneg (Fin a) = Fin (- a)"
| "nneg NaN = NaN"
| "nneg PosInf = NegInf"
| "nneg NegInf = PosInf"

fun Math_round :: "number \<Rightarrow> number" where
  "Math_round (Fin a) = Fin (of_int \<lfloor>a + 1 / 2\<rfloor>)"
| "Math_round n = n"

fun Math_abs :: "number \<Rightarrow> number" where
  "Math_abs (Fin a) = Fin \<bar>a\<bar>"
| "Math_abs NaN = NaN"
| "Math_abs _ = PosInf"

fun pow10 :: "number \<Rightarrow> number" where
  "pow10 (Fin a) = Fin (if of_int \<lfloor>a\<rfloor> = a then 10 powi \<lfloor>a\<rfloor> else 10 powr a)"
| "pow10 NaN = NaN"
| "pow10 PosInf = PosInf"
| "pow10 NegInf = Fin 0"

section \<open>The platform's number formatting (ECMAScript)\<close>

text \<open>
  \<open>Number.prototype.toString\<close>, \<open>toFixed\<close> and \<open>toExponential\<close> as the language
  standard defines them, on the exact value of the number.  \<open>digits n\<close> is the decimal
  representation of a natural number.  A double has a shortest decimal representation of at
  most 17 significant digits; for a real with a longer expansion \<open>Number_toString\<close> prints
  its 17 leading digits, rounded.
\<close>

function digits :: "nat \<Rightarrow> jsstring" where
  "digits n = (if n < 10 then [48 + n] else digits (n div 10) @ [48 + n mod 10])"
  by pat_completeness auto
termination
  by (relation "measure id") auto

declare digits.simps [simp del]

function frac_shift :: "real \<Rightarrow> nat" where
  "frac_shift x = (if 0 < x \<and> x < 1 then Suc (frac_shift (x * 10)) else 0)"
  by pat_completeness auto
termination
proof (relation "measure (\<lambda>x. nat \<lceil>- log 10 x\<rceil>)")
  show "wf (measure (\<lambda>x. nat \<lceil>- log 10 x\<rceil>))" by simp
next
  fix x :: real
  assume a: "0 < x \<and> x < 1"
  then have "log 10 (x * 10) = log 10 x + 1"
    by (simp add: log_mult)
  moreover have "log 10 x < 0" using a by simp
  ultimately show "(x * 10, x) \<in> measure (\<lambda>x. nat \<lceil>- log 10 x\<rceil>)"
    by simp
qed

declare frac_shift.simps [simp del]

definition decimal_exponent :: "real \<Rightarrow> int" where
  "decimal_exponent x =
     (if 1 \<le> x then int (length (digits (nat \<lfloor>x\<rfloor>))) else 1 - int (frac_shift x))"

function shortest_k :: "nat \<Rightarrow> real \<Rightarrow> int \<Rightarrow> nat" where
  "shortest_k k x n =
     (if k < 17 \<and> of_int \<lfloor>x * 10 powi (int k - n)\<rfloor> \<noteq> x * 10 powi (int k - n)
      then shortest_k (Suc k) x n else k)"
  by pat_completeness auto
termination
  by (relation "measure (\<lambda>(k, x, n). 17 - k)") auto

declare shortest_k.simps [simp del]

definition exponent_part :: "int \<Rightarrow> jsstring" where
  "exponent_part e = ascii ''e'' @ (if e < 0 then ascii ''-'' else ascii ''+'') @ digits (nat \<bar>e\<bar>)"

definition toString_pos :: "real \<Rightarrow> jsstring" where
  "toString_pos x =
     (let n = decimal_exponent x;
          k = shortest_k 1 x n;
          s = digits (nat \<lfloor>x * 10 powi (int k - n) + 1 / 2\<rfloor>)
      in if int k \<le> n \<and> n \<le> 21 then s @ replicate (nat (n - int k)) 48
         else if 0 < n \<and> n \<le> 21 then take (nat n) s @ ascii ''.'' @ drop (nat n) s
         else if - 6 < n \<and> n \<le> 0 then ascii ''0.'' @ replicate (nat (- n)) 48 @ s
         else if k = 1 then s @ exponent_part (n - 1)
         else take 1 s @ ascii ''.'' @ drop 1 s @ exponent_part (n - 1))"

fun Number_toString :: "number \<Rightarrow> jsstring" where
  "Number_toString NaN = ascii ''NaN''"
| "Number_toString PosInf = ascii ''Infinity''"
| "Number_toString NegInf = ascii ''-Infinity''"
| "Number_toString (Fin x) =
     (if x = 0 then ascii ''0''
      else if x < 0 then ascii ''-'' @ toString_pos (- x)
      else toString_pos x)"

definition toFixed_digits :: "real \<Rightarrow> nat \<Rightarrow> jsstring" where
  "toFixed_digits x f =
     (let m = digits (nat \<lfloor>x * 10 ^ f + 1 / 2\<rfloor>)
      in if f = 0 then m
         else let m' = replicate (f + 1 - length m) 48 @ m; k = length m'
              in take (k - f) m' @ ascii ''.'' @ drop (k - f) m')"

fun Number_toFixed :: "number \<Rightarrow> nat \<Rightarrow> jsstring" where
  "Number_toFixed (Fin x) f =
     (if 10 ^ 21 \<le> \<bar>x\<bar> then Number_toString (Fin x)
      else (if x < 0 then ascii ''-'' else []) @ toFixed_digits \<bar>x\<bar> f)"
| "Number_toFixed n f = Number_toString n"

definition toExponential_pos :: "real \<Rightarrow> nat \<Rightarrow> jsstring" where
  "toExponential_pos x f =
     (let e0 = decimal_exponent x - 1;
          n0 = nat \<lfloor>x * 10 powi (int f - e0) + 1 / 2\<rfloor>;
          e = (if 10 ^ (f + 1) \<le> n0 then e0 + 1 else e0);
          n = (if 10 ^ (f + 1) \<le> n0 then 10 ^ f else n0);
          m = digits n
      in (if f = 0 then m else take 1 m @ ascii ''.'' @ drop 1 m) @ exponent_part e)"

fun Number_toExponential :: "number \<Rightarrow> nat \<Rightarrow> jsstring" where
  "Number_toExponential (Fin x) f =
     (if x = 0 then (if f = 0 then ascii ''0'' else ascii ''0.'' @ replicate f 48) @ ascii ''e+0''
      else (if x < 0 then ascii ''-'' else []) @ toExponential_pos \<bar>x\<bar> f)"
| "Number_toExponential n f = Number_toString n"

section \<open>The logarithmic scale (src/scales/logScale.ts)\<close>

text \<open>
  The d3 scale behind a \<open>Log\<close> is an object of the d3 library.  What the class reads and
  writes of it is its base, its domain and its range; its own functions (\<open>ticks\<close>, the
  transform and its inverse, \<open>nice\<close>) are not part of this repository and enter as
  parameters where a method calls them.
\<close>

record d3_scale =
  d3_base :: real
  d3_domain :: "real \<times> real"
  d3_range :: "real \<times> real"

record log_scale =
  base :: real
  minimumNumberOfTicks :: real
  d3Scale :: d3_scale

definition defaultExtent :: "log_scale \<Rightarrow> real \<times> real" where
  "defaultExtent s = (1, d3_base (d3Scale s))"

definition expandSingleValueDomain :: "log_scale \<Rightarrow> real \<times> real \<Rightarrow> real \<times> real" where
  "expandSingleValueDomain s singleValueDomain =
     (if fst singleValueDomain = snd singleValueDomain
      then (fst singleValueDomain / d3_base (d3Scale s),
            snd singleValueDomain * d3_base (d3Scale s))
      else singleValueDomain)"

text \<open>
  \<open>_backingScaleDomain(values)\<close> with an argument: the values go to the d3 scale and the
  scale itself is returned.  The method has no \<open>throw\<close>; the result type has the error
  branch every fallible operation of this development has, so that the absence of a failure is
  a statement about the function.
\<close>

definition backingScaleDomain_set :: "real \<times> real \<Rightarrow> log_scale \<Rightarrow> error + log_scale" where
  "backingScaleDomain_set values s = Inr (s\<lparr>d3Scale := (d3Scale s)\<lparr>d3_domain := values\<rparr>\<rparr>)"

definition backingScaleDomain_get :: "log_scale \<Rightarrow> real \<times> real" where
  "backingScaleDomain_get s = d3_domain (d3Scale s)"

definition getDomain :: "log_scale \<Rightarrow> real \<times> real" where
  "getDomain s = backingScaleDomain_get s"

definition getRange :: "log_scale \<Rightarrow> real \<times> real" where
  "getRange s = d3_range (d3Scale s)"

definition setRange :: "real \<times> real \<Rightarrow> log_scale \<Rightarrow> log_scale" where
  "setRange values s = s\<lparr>d3Scale := (d3Scale s)\<lparr>d3_range := values\<rparr>\<rparr>"

text \<open>
  The two loops of \<open>_logTickGenerator\<close>, for finite \<open>i\<close> and \<open>j\<close>.  They run only
  for a positive base (otherwise \<open>i\<close> and \<open>j\<close> are equal or \<open>NaN\<close>), where
  \<open>Math.pow(base, i)\<close> is the integer power.
\<close>

function ticks_up :: "real \<Rightarrow> int \<Rightarrow> int \<Rightarrow> real list \<Rightarrow> real list" where
  "ticks_up b i j ticks = (if i < j then ticks_up b (i + 1) j (ticks @ [b powi i]) else ticks)"
  by pat_completeness auto
termination
  by (relation "measure (\<lambda>(b, i, j, ticks). nat (j - i))") auto

function ticks_down :: "real \<Rightarrow> int \<Rightarrow> int \<Rightarrow> real list \<Rightarrow> real list" where
  "ticks_down b i j ticks = (if j < i then ticks_down b (i - 1) j (ticks @ [b powi i]) else ticks)"
  by pat_completeness auto
termination
  by (relation "measure (\<lambda>(b, i, j, ticks). nat (i - j))") auto

declare ticks_up.simps [simp del] ticks_down.simps [simp del]

text \<open>
  The \<open>if\<close>/\<open>else\<close> around the loops.  With \<open>i\<close> or \<open>j\<close> infinite and the loop
  condition true, \<open>++i\<close> (or \<open>--i\<close>) never changes its truth and the loop does not end:
  the result is \<open>None\<close>.  A \<open>NaN\<close> makes both conditions false and leaves the list empty.
\<close>

definition powerTicks :: "real \<Rightarrow> number \<Rightarrow> number \<Rightarrow> real list option" where
  "powerTicks b i j =
     (if nless i j then
        (case (i, j) of
           (Fin a, Fin c) \<Rightarrow> Some (ticks_up b \<lfloor>a\<rfloor> \<lfloor>c\<rfloor> [])
         | _ \<Rightarrow> None)
      else if nless j i then
        (case (i, j) of
           (Fin a, Fin c) \<Rightarrow> Some (ticks_down b \<lfloor>a\<rfloor> \<lfloor>c\<rfloor> [])
         | _ \<Rightarrow> None)
      else Some [])"

definition tick_j :: "(real \<Rightarrow> real) \<Rightarrow> (real \<Rightarrow> real \<Rightarrow> real) \<Rightarrow> log_scale \<Rightarrow> number" where
  "tick_j lg dv s =
     Math_ceil (fdivn dv (Math_log lg (snd (getDomain s))) (Math_log lg (base s)))"

definition tick_i :: "(real \<Rightarrow> real) \<Rightarrow> (real \<Rightarrow> real \<Rightarrow> real) \<Rightarrow> log_scale \<Rightarrow> number" where
  "tick_i lg dv s =
     Math_floor (fdivn dv (Math_log lg (fst (getDomain s))) (Math_log lg (base s)))"

text \<open>
  \<open>_logTickGenerator\<close>.  \<open>native s n\<close> stands for \<open>this._d3Scale.ticks(n)\<close>, the tick
  generator of the d3 scale.
\<close>

definition logTickGenerator ::
  "(real \<Rightarrow> real) \<Rightarrow> (real \<Rightarrow> real \<Rightarrow> real) \<Rightarrow> (d3_scale \<Rightarrow> real \<Rightarrow> real list) \<Rightarrow>
     log_scale \<Rightarrow> real list option" where
  "logTickGenerator lg dv native s =
     (case powerTicks (base s) (tick_i lg dv s) (tick_j lg dv s) of
        None \<Rightarrow> None
      | Some ticks \<Rightarrow>
          if real (length ticks) < minimumNumberOfTicks s
          then Some (native (d3Scale s) (minimumNumberOfTicks s))
          else Some ticks)"

text \<open>
  The tick generator of d3's logarithmic scale (d3-scale, \<open>scale.ticks(count)\<close>), for base
  10 and a positive ascending domain \<open>[u, v]\<close> that spans fewer than \<open>count\<close> decades:
  with \<open>i = Math.log10(u)\<close> and \<open>j = Math.log10(v)\<close> it walks the decades from
  \<open>Math.round(i) - 1\<close> up to \<open>Math.round(j) + 1\<close> (exclusive) and in each decade
  \<open>p = 10^i\<close> the multiples \<open>p * k\<close>, \<open>k = 1, ..., 9\<close>, skipping those below
  \<open>u\<close> and leaving the decade at the first one above \<open>v\<close>.  \<open>lg10\<close> is
  \<open>Math.log10\<close>.  Every other case of d3's generator (another base, a non-positive or
  descending domain, at least \<open>count\<close> decades) is the parameter \<open>other\<close>.  d3 is a
  library the scale depends on; its generator is stated here as the library defines it.  The
  products \<open>p * k\<close> are exact in doubles from the decade \<open>p = 1\<close> on.
\<close>

function d3_decade :: "real \<Rightarrow> real \<Rightarrow> real \<Rightarrow> nat \<Rightarrow> real list" where
  "d3_decade p u v k =
     (if k < 10 then
        (if p * real k < u then d3_decade p u v (k + 1)
         else if v < p * real k then []
         else p * real k # d3_decade p u v (k + 1))
      else [])"
  by pat_completeness auto
termination
  by (relation "measure (\<lambda>(p, u, v, k). 10 - k)") auto

function d3_decades :: "real \<Rightarrow> real \<Rightarrow> int \<Rightarrow> int \<Rightarrow> real list" where
  "d3_decades u v i j =
     (if i < j then d3_decade (10 powi i) u v 1 @ d3_decades u v (i + 1) j else [])"
  by pat_completeness auto
termination
  by (relation "measure (\<lambda>(u, v, i, j). nat (j - i))") auto

declare d3_decade.simps [simp del] d3_decades.simps [simp del]

definition d3_log_ticks ::
  "(real \<Rightarrow> real) \<Rightarrow> (d3_scale \<Rightarrow> real \<Rightarrow> real list) \<Rightarrow> d3_scale \<Rightarrow> real \<Rightarrow> real list" where
  "d3_log_ticks lg10 other sc n =
     (let u = fst (d3_domain sc); v = snd (d3_domain sc); i = lg10 u; j = lg10 v
      in if d3_base sc = 10 \<and> 0 < u \<and> u \<le> v \<and> j - i < n
         then d3_decades u v (\<lfloor>i + 1 / 2\<rfloor> - 1) (\<lfloor>j + 1 / 2\<rfloor> + 1)
         else other sc n)"

text \<open>
  The constructor: \<open>d3.scaleLog().base(base)\<close> has d3's default domain \<open>[1, 10]\<close> and
  range \<open>[0, 1]\<close>; \<open>_setDomain\<close> then stores the default extent.  \<open>_setDomain\<close> is
  inherited from a class that is not among the sources and is taken to write the domain through
  \<open>_backingScaleDomain\<close>.
\<close>

definition Log :: "real \<Rightarrow> real \<Rightarrow> log_scale" where
  "Log b m =
     (let s = \<lparr>base = b, minimumNumberOfTicks = m,
                d3Scale = \<lparr>d3_base = b, d3_domain = (1, 10), d3_range = (0, 1)\<rparr>\<rparr>
      in s\<lparr>d3Scale := (d3Scale s)\<lparr>d3_domain := defaultExtent s\<rparr>\<rparr>)"

section \<open>Formatters\<close>

subsection \<open>multiTime\<close>

text \<open>A date as the values of the getters the formatter reads (a valid date).\<close>

record date =
  getMilliseconds :: nat
  getSeconds :: nat
  getMinutes :: nat
  getHours :: nat
  getDay :: nat
  getDate :: nat
  getMonth :: nat
  getFullYear :: int

definition candidateFormats :: "(jsstring \<times> (date \<Rightarrow> bool)) list" where
  "candidateFormats =
     [(ascii ''.%L'', \<lambda>d. getMilliseconds d \<noteq> 0),
      (ascii '':%S'', \<lambda>d. getSeconds d \<noteq> 0),
      (ascii ''%I:%M'', \<lambda>d. getMinutes d \<noteq> 0),
      (ascii ''%I %p'', \<lambda>d. getHours d \<noteq> 0),
      (ascii ''%a %d'', \<lambda>d. getDay d \<noteq> 0 \<and> getDate d \<noteq> 1),
      (ascii ''%b %d'', \<lambda>d. getDate d \<noteq> 1),
      (ascii ''%b'', \<lambda>d. getMonth d \<noteq> 0)]"

definition multiTime_specifier :: "date \<Rightarrow> jsstring" where
  "multiTime_specifier d =
     (let acceptableFormats = filter (\<lambda>candidate. snd candidate d) candidateFormats
      in if length acceptableFormats > 0 then fst (acceptableFormats ! 0) else ascii ''%Y'')"

text \<open>\<open>timeFormat\<close> stands for \<open>d3.timeFormat\<close>.\<close>

definition multiTime :: "(jsstring \<Rightarrow> date \<Rightarrow> jsstring) \<Rightarrow> date \<Rightarrow> jsstring" where
  "multiTime timeFormat d = timeFormat (multiTime_specifier d) d"

subsection \<open>Precision, fixed, general\<close>

text \<open>
  A formatter's argument has type \<open>any\<close>; the values modelled are the numbers and
  \<open>undefined\<close>.  A formatter returns a string or throws.
\<close>

datatype jsval = Num number | Undefined

fun String_val :: "jsval \<Rightarrow> jsstring" where
  "String_val (Num n) = Number_toString n"
| "String_val Undefined = ascii ''undefined''"

type_synonym formatter = "jsval \<Rightarrow> error + jsstring"

text \<open>
  Where a formatter's body applies arithmetic, a comparison or \<open>Math.abs\<close> to its
  argument, \<open>undefined\<close> converts to \<open>NaN\<close>.
\<close>

fun to_number :: "jsval \<Rightarrow> number" where
  "to_number (Num n) = n"
| "to_number Undefined = NaN"

definition strict_neq :: "number \<Rightarrow> number \<Rightarrow> bool" where
  "strict_neq a b = (a = NaN \<or> b = NaN \<or> a \<noteq> b)"

definition verifyPrecision :: "number \<Rightarrow> error + unit" where
  "verifyPrecision precision =
     (if nless precision (Fin 0) \<or> nless (Fin 20) precision
      then Inl (RangeError (ascii ''Formatter precision must be between 0 and 20''))
      else if strict_neq precision (Math_floor precision)
      then Inl (RangeError (ascii ''Formatter precision must be an integer''))
      else Inr ())"

fun places :: "number \<Rightarrow> nat" where
  "places (Fin p) = nat \<lfloor>p\<rfloor>"
| "places _ = 0"

text \<open>
  \<open>places\<close> reads a verified precision as the natural number it is.  \<open>toFixed\<close> on
  \<open>undefined\<close> is a \<open>TypeError\<close>.
\<close>

definition fixed :: "number \<Rightarrow> error + formatter" where
  "fixed precision =
     (case verifyPrecision precision of
        Inl e \<Rightarrow> Inl e
      | Inr _ \<Rightarrow> Inr (\<lambda>d. case d of
                          Num n \<Rightarrow> Inr (Number_toFixed n (places precision))
                        | Undefined \<Rightarrow> Inl TypeError))"

definition general :: "number \<Rightarrow> error + formatter" where
  "general maxNumberOfDecimalPlaces =
     (case verifyPrecision maxNumberOfDecimalPlaces of
        Inl e \<Rightarrow> Inl e
      | Inr _ \<Rightarrow> Inr (\<lambda>d. case d of
                          Num n \<Rightarrow>
                            (let multiplier = pow10 maxNumberOfDecimalPlaces
                             in Inr (Number_toString
                                       (ndiv (Math_round (nmul n multiplier)) multiplier)))
                        | Undefined \<Rightarrow> Inr (String_val d)))"

definition superscript_dict :: "nat \<Rightarrow> nat option" where
  "superscript_dict c =
     (if c = of_char CHR ''0'' then Some 0x2070
      else if c = of_char CHR ''1'' then Some 0xB9
      else if c = of_char CHR ''2'' then Some 0xB2
      else if c = of_char CHR ''3'' then Some 0xB3
      else if c = of_char CHR ''4'' then Some 0x2074
      else if c = of_char CHR ''5'' then Some 0x2075
      else if c = of_char CHR ''6'' then Some 0x2076
      else if c = of_char CHR ''7'' then Some 0x2077
      else if c = of_char CHR ''8'' then Some 0x2078
      else if c = of_char CHR ''9'' then Some 0x2079
      else if c = of_char CHR ''+'' then Some 0x207A
      else if c = of_char CHR ''-'' then Some 0x207B
      else if c = of_char CHR ''.'' then Some 0x22C5
      else None)"

definition unicode_superscript :: "jsstring \<Rightarrow> jsstring" where
  "unicode_superscript s = map (\<lambda>c. case superscript_dict c of Some u \<Rightarrow> u | None \<Rightarrow> c) s"

text \<open>The string \<open>"\<times>10"\<close>: the multiplication sign U+00D7, then \<open>10\<close>.\<close>

definition times10 :: jsstring where
  "times10 = 0xD7 # ascii ''10''"

text \<open>
  The tests of the formatter's first branch: \<open>d == 0\<close>, \<open>isNaN(d)\<close> (true of
  \<open>undefined\<close>, which converts to \<open>NaN\<close>) and \<open>Math.abs(d) == Infinity\<close>.
\<close>

fun loose_eq_zero :: "jsval \<Rightarrow> bool" where
  "loose_eq_zero (Num (Fin x)) = (x = 0)"
| "loose_eq_zero _ = False"

fun isNaN :: "jsval \<Rightarrow> bool" where
  "isNaN (Num NaN) = True"
| "isNaN Undefined = True"
| "isNaN _ = False"

fun abs_is_Infinity :: "jsval \<Rightarrow> bool" where
  "abs_is_Infinity (Num PosInf) = True"
| "abs_is_Infinity (Num NegInf) = True"
| "abs_is_Infinity _ = False"

text \<open>
  The body of the formatter \<open>exponential\<close> returns.  \<open>exponent_math\<close> is its second
  branch, the computation of exponent and mantissa for a number \<open>x\<close>; the quotient of the
  two logarithms is the platform's division.
\<close>

definition exponent_math ::
  "(real \<Rightarrow> real) \<Rightarrow> (real \<Rightarrow> real \<Rightarrow> real) \<Rightarrow> number \<Rightarrow> real \<Rightarrow> jsstring" where
  "exponent_math lg dv maxNumberOfDecimalPlaces x =
     (let multiplier = pow10 maxNumberOfDecimalPlaces;
          sign = (if x < 0 then - 1 else 1);
          e = Math_floor (fdivn dv (Math_log lg (sign * x)) (Math_log lg 10));
          m = ndiv (Fin (sign * x)) (pow10 e);
          m_rounded = ndiv (Math_round (nmul m multiplier)) multiplier
      in if e = Fin 0 then Number_toString (nmul (Fin sign) m_rounded)
         else if m_rounded = Fin 1 then
           (if sign > 0 then ascii ''10'' @ unicode_superscript (Number_toString e)
            else ascii ''-10'' @ unicode_superscript (Number_toString e))
         else Number_toString (nmul (Fin sign) m_rounded) @ times10
                @ unicode_superscript (Number_toString e))"

definition exponential_format ::
  "(real \<Rightarrow> real) \<Rightarrow> (real \<Rightarrow> real \<Rightarrow> real) \<Rightarrow> number \<Rightarrow> jsval \<Rightarrow> jsstring" where
  "exponential_format lg dv maxNumberOfDecimalPlaces d =
     (if loose_eq_zero d \<or> d = Undefined \<or> isNaN d \<or> abs_is_Infinity d
      then String_val d
      else case d of
             Num (Fin x) \<Rightarrow> exponent_math lg dv maxNumberOfDecimalPlaces x
           | _ \<Rightarrow> String_val d)"

definition exponential ::
  "(real \<Rightarrow> real) \<Rightarrow> (real \<Rightarrow> real \<Rightarrow> real) \<Rightarrow> number \<Rightarrow> error + formatter" where
  "exponential lg dv maxNumberOfDecimalPlaces =
     (case verifyPrecision maxNumberOfDecimalPlaces of
        Inl e \<Rightarrow> Inl e
      | Inr _ \<Rightarrow> Inr (\<lambda>d. Inr (exponential_format lg dv maxNumberOfDecimalPlaces d)))"

subsection \<open>percentage\<close>

text \<open>
  \<open>indexOf\<close> of a code unit (\<open>-1\<close> when absent), and \<open>parseInt(s, 10)\<close> on the strings
  \<open>Number.prototype.toString\<close> produces: an optional sign, then the leading decimal digits;
  \<open>NaN\<close> when there is none.
\<close>

definition indexOf :: "jsstring \<Rightarrow> nat \<Rightarrow> int" where
  "indexOf s c = (if c \<in> set s then int (length (takeWhile (\<lambda>x. x \<noteq> c) s)) else - 1)"

definition digits_value :: "jsstring \<Rightarrow> nat" where
  "digits_value ds = foldl (\<lambda>acc c. 10 * acc + (c - 48)) 0 ds"

definition parseInt :: "jsstring \<Rightarrow> number" where
  "parseInt s =
     (let negative = (s \<noteq> [] \<and> hd s = 45);
          unsigned = (if s \<noteq> [] \<and> (hd s = 45 \<or> hd s = 43) then tl s else s);
          ds = takeWhile (\<lambda>c. 48 \<le> c \<and> c \<le> 57) unsigned
      in if ds = [] then NaN
         else if negative then Fin (- real (digits_value ds)) else Fin (real (digits_value ds)))"

text \<open>
  The formatter \<open>percentage\<close> returns; \<open>mul\<close> and \<open>dv\<close> are the platform's
  multiplication and division.  \<open>undefined\<close> has no \<open>toString\<close>: a \<open>TypeError\<close>.
\<close>

definition percentage ::
  "(real \<Rightarrow> real \<Rightarrow> real) \<Rightarrow> (real \<Rightarrow> real \<Rightarrow> real) \<Rightarrow> number \<Rightarrow> error + formatter" where
  "percentage mul dv precision =
     (case fixed precision of
        Inl e \<Rightarrow> Inl e
      | Inr fixedFormatter \<Rightarrow>
          Inr (\<lambda>d. case d of
                     Undefined \<Rightarrow> Inl TypeError
                   | Num n \<Rightarrow>
                       (let valToFormat = fmuln mul n (Fin 100);
                            valString = Number_toString n;
                            integerPowerTen =
                              pow10 (Fin (real_of_int
                                (int (length valString) - (indexOf valString 46 + 1))));
                            valToFormat' =
                              fdivn dv
                                (parseInt (Number_toString (fmuln mul valToFormat integerPowerTen)))
                                integerPowerTen
                        in case fixedFormatter (Num valToFormat') of
                             Inl e \<Rightarrow> Inl e
                           | Inr formatted \<Rightarrow> Inr (formatted @ ascii ''%''))))"

subsection \<open>currency\<close>

definition currency :: "number \<Rightarrow> jsstring \<Rightarrow> bool \<Rightarrow> error + formatter" where
  "currency precision symbol prefix =
     (case fixed precision of
        Inl e \<Rightarrow> Inl e
      | Inr fixedFormatter \<Rightarrow>
          Inr (\<lambda>d. case fixedFormatter (Num (Math_abs (to_number d))) of
                     Inl e \<Rightarrow> Inl e
                   | Inr formattedValue \<Rightarrow>
                       Inr (if formattedValue \<noteq> []
                            then (let withSymbol = (if prefix then symbol @ formattedValue
                                                    else formattedValue @ symbol)
                                  in if nless (to_number d) (Fin 0)
                                     then ascii ''-'' @ withSymbol else withSymbol)
                            else formattedValue)))"

subsection \<open>shortScale\<close>

text \<open>
  \<open>d3.format(".<p>f")\<close> and \<open>d3.format(".<p>e")\<close> belong to the d3 library.  The
  formatter is modelled for arbitrary \<open>exponentFormatter\<close> and \<open>fixedFormatter\<close>
  (\<open>shortScale_format\<close>); \<open>d3_format_f\<close> and \<open>d3_format_e\<close> are d3-format's
  behaviour for these two specifiers: \<open>toFixed\<close> or \<open>toExponential\<close> of the magnitude,
  with a minus sign in front when the number is negative, unless the formatted magnitude
  converts to zero (\<open>+formatted === 0\<close>): its mantissa, the part before an \<open>e\<close>, then
  consists of zeros and the decimal point.  The formatter's lower threshold
  \<open>Math.pow(10, -precision)\<close> is taken as the exact power of ten.
\<close>

definition formatted_zero :: "jsstring \<Rightarrow> bool" where
  "formatted_zero formatted =
     (formatted \<noteq> [] \<and> list_all (\<lambda>c. c = 48 \<or> c = 46) (takeWhile (\<lambda>c. c \<noteq> 101) formatted))"

fun nge :: "number \<Rightarrow> number \<Rightarrow> bool" where
  "nge (Fin a) (Fin b) = (b \<le> a)"
| "nge PosInf (Fin b) = True"
| "nge (Fin a) NegInf = True"
| "nge PosInf NegInf = True"
| "nge PosInf PosInf = True"
| "nge NegInf NegInf = True"
| "nge _ _ = False"

definition d3_sign_prefix :: "number \<Rightarrow> jsstring \<Rightarrow> jsstring" where
  "d3_sign_prefix n formatted =
     (if nless n (Fin 0) \<and> \<not> formatted_zero formatted
      then ascii ''-'' @ formatted else formatted)"

definition d3_format_f :: "nat \<Rightarrow> number \<Rightarrow> jsstring" where
  "d3_format_f p n = d3_sign_prefix n (Number_toFixed (Math_abs n) p)"

definition d3_format_e :: "nat \<Rightarrow> number \<Rightarrow> jsstring" where
  "d3_format_e p n = d3_sign_prefix n (Number_toExponential (Math_abs n) p)"

definition suffixes :: jsstring where
  "suffixes = ascii ''KMBTQ''"

function find_idx :: "number \<Rightarrow> int \<Rightarrow> int" where
  "find_idx absNum idx =
     (if nge absNum (Fin (1000 powi (idx + 2))) \<and> idx < int (length suffixes) - 1
      then find_idx absNum (idx + 1) else idx)"
  by pat_completeness auto
termination
  by (relation "measure (\<lambda>(absNum, idx). nat (int (length suffixes) - 1 - idx))") auto

declare find_idx.simps [simp del]

definition suffixed :: "(number \<Rightarrow> jsstring) \<Rightarrow> number \<Rightarrow> int \<Rightarrow> jsstring" where
  "suffixed fixedFormatter num idx =
     fixedFormatter (ndiv num (Fin (1000 powi (idx + 1)))) @ [suffixes ! nat idx]"

definition shortScale_format ::
  "(number \<Rightarrow> jsstring) \<Rightarrow> (number \<Rightarrow> jsstring) \<Rightarrow> number \<Rightarrow> number \<Rightarrow> jsstring" where
  "shortScale_format exponentFormatter fixedFormatter precision num =
     (let max_v = pow10 (Fin (3 * (real (length suffixes) + 1)));
          min_v = pow10 (nneg precision);
          absNum = Math_abs num
      in if (nless absNum min_v \<or> nge absNum max_v) \<and> strict_neq absNum (Fin 0)
         then exponentFormatter num
         else
           let idx = find_idx absNum (- 1);
               output = (if idx = - 1 then fixedFormatter num
                         else suffixed fixedFormatter num idx)
           in if (nless (Fin 0) num \<and> take 4 output = ascii ''1000'')
                 \<or> (nless num (Fin 0) \<and> take 5 output = ascii ''-1000'')
              then (if idx < int (length suffixes) - 1
                    then suffixed fixedFormatter num (idx + 1)
                    else exponentFormatter num)
              else output)"

definition shortScale :: "number \<Rightarrow> error + formatter" where
  "shortScale precision =
     (case verifyPrecision precision of
        Inl e \<Rightarrow> Inl e
      | Inr _ \<Rightarrow> Inr (\<lambda>num. Inr (shortScale_format (d3_format_e (places precision))
                                (d3_format_f (places precision)) precision (to_number num))))"

subsection \<open>Constructing a formatter and calling it\<close>

text \<open>\<open>format_with (exponential lg (Fin 3)) d\<close> is \<open>exponential(3)(d)\<close>.\<close>

definition format_with :: "error + formatter \<Rightarrow> jsval \<Rightarrow> error + jsstring" where
  "format_with made d = (case made of Inl e \<Rightarrow> Inl e | Inr f \<Rightarrow> f d)"

section \<open>Properties\<close>

subsection \<open>multiTime on Sundays\<close>

lemma ascii_simps [simp]:
  "ascii [] = []" "ascii (c # cs) = of_char c # ascii cs"
  by (simp_all add: ascii_def)

text \<open>
  Claim C10.  For a date whose day of the week is Sunday (\<open>getDay = 0\<close>) the formatter never
  chooses the specifier \<open>%a %d\<close>; and when moreover milliseconds, seconds, minutes and hours
  are all zero and the day of the month is not 1, it chooses \<open>%b %d\<close> and formats with it.
\<close>

theorem multiTime_sunday:
  "getDay d = 0 \<Longrightarrow>
     multiTime_specifier d \<noteq> ascii ''%a %d'' \<and>
     (getMilliseconds d = 0 \<and> getSeconds d = 0 \<and> getMinutes d = 0 \<and> getHours d = 0
        \<and> getDate d \<noteq> 1 \<longrightarrow>
      multiTime_specifier d = ascii ''%b %d'' \<and>
      multiTime timeFormat d = timeFormat (ascii ''%b %d'') d)"
  by (auto simp: multiTime_def multiTime_specifier_def candidateFormats_def Let_def)

text \<open>Sunday 8 January 2023, midnight.\<close>

theorem multiTime_sunday_witness:
  "getDay \<lparr>getMilliseconds = 0, getSeconds = 0, getMinutes = 0, getHours = 0, getDay = 0,
           getDate = 8, getMonth = 0, getFullYear = 2023\<rparr> = 0 \<and>
   multiTime_specifier \<lparr>getMilliseconds = 0, getSeconds = 0, getMinutes = 0, getHours = 0,
           getDay = 0, getDate = 8, getMonth = 0, getFullYear = 2023\<rparr> = ascii ''%b %d''"
proof -
  let ?d = "\<lparr>getMilliseconds = 0, getSeconds = 0, getMinutes = 0, getHours = 0, getDay = 0,
           getDate = 8, getMonth = 0, getFullYear = 2023\<rparr>"
  have h: "getDay ?d = 0" by simp
  show ?thesis using h multiTime_sunday [OF h] by simp
qed

subsection \<open>Setting a domain with a non-positive bound\<close>

text \<open>
  The write path of a \<open>Log\<close> to its domain is \<open>_backingScaleDomain\<close>; the inherited
  setter \<open>domain\<close>, which \<open>setTransformationDomain\<close> calls, reaches the d3 scale through
  it.  The class declares no validity constraint and the method has no check.

  Claim C4 as stated fails: setting the domain \<open>[-1, 5]\<close> on \<open>new Log(10, 4)\<close> returns the
  scale, and the domain read back is \<open>[-1, 5]\<close>.
\<close>

theorem backingScaleDomain_accepts_negative:
  "map_sum id getDomain (backingScaleDomain_set (- 1, 5) (Log 10 4)) = Inr (- 1, 5)"
  by (simp add: backingScaleDomain_set_def getDomain_def backingScaleDomain_get_def)

text \<open>
  Claim C4, amended.  \<open>_backingScaleDomain\<close> raises no error for any pair of bounds: it
  returns the scale, whose domain is then exactly the pair supplied (neither clamped nor
  corrected), with base, minimum number of ticks and range unchanged.
\<close>

theorem backingScaleDomain_stores_unchecked:
  "map_sum id (\<lambda>s'. (getDomain s', base s', minimumNumberOfTicks s', getRange s',
                     d3_base (d3Scale s')))
     (backingScaleDomain_set values s)
   = Inr (values, base s, minimumNumberOfTicks s, getRange s, d3_base (d3Scale s))"
  by (simp add: backingScaleDomain_set_def getDomain_def backingScaleDomain_get_def
      getRange_def)

subsection \<open>Ticks of the logarithmic scale\<close>

lemma ticks_up_0_3: "ticks_up 10 0 3 [] = [1, 10, 100]"
  by (simp add: ticks_up.simps)

lemma ticks_up_0_1: "ticks_up 10 0 1 [] = [1]"
  by (simp add: ticks_up.simps)

lemma tick_bounds_1_1000:
  assumes "lg 10 \<noteq> 0" and "dv (lg 1) (lg 10) = 0"
    and "2 < dv (lg 1000) (lg 10)" and "dv (lg 1000) (lg 10) \<le> 3"
    and "base s = 10" and "getDomain s = (1, 1000)"
  shows "tick_i lg dv s = Fin 0" and "tick_j lg dv s = Fin 3"
proof -
  show "tick_i lg dv s = Fin 0"
    using assms by (simp add: tick_i_def Math_log_def)
  have "\<lceil>dv (lg 1000) (lg 10)\<rceil> = 3"
    using assms(3,4) by (simp add: ceiling_eq_iff)
  then show "tick_j lg dv s = Fin 3"
    using assms by (simp add: tick_j_def Math_log_def)
qed

lemma tick_bounds_1_10:
  assumes "lg 10 \<noteq> 0" and "dv (lg 1) (lg 10) = 0" and "dv (lg 10) (lg 10) = 1"
    and "base s = 10" and "getDomain s = (1, 10)"
  shows "tick_i lg dv s = Fin 0" and "tick_j lg dv s = Fin 1"
  using assms by (simp_all add: tick_i_def tick_j_def Math_log_def)

lemma ln_quotient_1000: "ln (1000::real) / ln 10 = 3"
proof -
  have "ln (1000::real) = ln (10 ^ 3)" by simp
  also have "\<dots> = 3 * ln 10" by (simp only: ln_realpow)
  finally show ?thesis by simp
qed

text \<open>
  The main loop for base 10 and the domain \<open>[1, 1000]\<close> collects the ascending powers
  \<open>1, 10, 100\<close>: the upper bound \<open>j = 3\<close> is exclusive.  This holds whenever the computed
  quotient \<open>Math.log(1000) / Math.log(10)\<close> lies in \<open>(2, 3]\<close>, as the exact quotient 3 and
  the double \<open>2.9999999999999996\<close> both do.
\<close>

lemma powerTicks_1_1000:
  assumes "lg 10 \<noteq> 0" and "dv (lg 1) (lg 10) = 0"
    and "2 < dv (lg 1000) (lg 10)" and "dv (lg 1000) (lg 10) \<le> 3"
    and "base s = 10" and "getDomain s = (1, 1000)"
  shows "powerTicks (base s) (tick_i lg dv s) (tick_j lg dv s) = Some [1, 10, 100]"
  using assms(5) tick_bounds_1_1000 [where lg = lg and dv = dv, OF assms]
  by (simp add: powerTicks_def ticks_up_0_3)

text \<open>The decades that d3's generator walks for the domains \<open>[1, 1000]\<close> and \<open>[1, 10]\<close>.\<close>

lemma d3_decade_below: "d3_decade (1 / 10) 1 v 1 = []"
  by (simp add: d3_decade.simps)

lemma d3_decade_full:
  "9 \<le> v \<Longrightarrow> d3_decade 1 1 v 1 = [1, 2, 3, 4, 5, 6, 7, 8, 9]"
  "90 \<le> v \<Longrightarrow> d3_decade 10 1 v 1 = [10, 20, 30, 40, 50, 60, 70, 80, 90]"
  "900 \<le> v \<Longrightarrow> d3_decade 100 1 v 1 = [100, 200, 300, 400, 500, 600, 700, 800, 900]"
  by (simp_all add: d3_decade.simps)

lemma d3_decade_last:
  "d3_decade 10 1 10 1 = [10]" "d3_decade 1000 1 1000 1 = [1000]"
  by (simp_all add: d3_decade.simps)

lemma d3_decades_1_1000:
  "d3_decades 1 1000 (- 1) 4 =
     [1, 2, 3, 4, 5, 6, 7, 8, 9, 10, 20, 30, 40, 50, 60, 70, 80, 90,
      100, 200, 300, 400, 500, 600, 700, 800, 900, 1000]"
  by (simp add: d3_decades.simps d3_decade_below d3_decade_full d3_decade_last
      del: One_nat_def)

lemma d3_decades_1_10:
  "d3_decades 1 10 (- 1) 2 = [1, 2, 3, 4, 5, 6, 7, 8, 9, 10]"
  by (simp add: d3_decades.simps d3_decade_below d3_decade_full d3_decade_last
      del: One_nat_def)

lemma d3_log_ticks_1_1000:
  assumes "lg10 1 = 0" and "lg10 1000 = 3" and "3 < n"
    and "d3_base sc = 10" and "d3_domain sc = (1, 1000)"
  shows "d3_log_ticks lg10 other sc n =
     [1, 2, 3, 4, 5, 6, 7, 8, 9, 10, 20, 30, 40, 50, 60, 70, 80, 90,
      100, 200, 300, 400, 500, 600, 700, 800, 900, 1000]"
proof -
  have "\<lfloor>(0::real) + 1 / 2\<rfloor> - 1 = - 1" "\<lfloor>(3::real) + 1 / 2\<rfloor> + 1 = 4"
    by simp_all
  then show ?thesis
    using assms by (simp add: d3_log_ticks_def Let_def d3_decades_1_1000)
qed

lemma d3_log_ticks_1_10:
  assumes "lg10 1 = 0" and "lg10 10 = 1" and "1 < n"
    and "d3_base sc = 10" and "d3_domain sc = (1, 10)"
  shows "d3_log_ticks lg10 other sc n = [1, 2, 3, 4, 5, 6, 7, 8, 9, 10]"
proof -
  have "\<lfloor>(0::real) + 1 / 2\<rfloor> - 1 = - 1" "\<lfloor>(1::real) + 1 / 2\<rfloor> + 1 = 2"
    by simp_all
  then show ?thesis
    using assms by (simp add: d3_log_ticks_def Let_def d3_decades_1_10)
qed

text \<open>
  Claim C2.  A scale with base 10, the domain \<open>[1, 1000]\<close> and a \<open>minimumNumberOfTicks\<close>
  above 3 (the constructor's default is 4): the main loop collects the three powers
  \<open>1, 10, 100\<close>, fewer than \<open>minimumNumberOfTicks\<close>, and the generator returns the ticks of
  the d3 scale instead, \<open>1, 2, ..., 9, 10, 20, ..., 900, 1000\<close>.  They are strictly
  ascending and contain 1, 10, 100 and 1000.
\<close>

theorem logTickGenerator_1_1000:
  assumes "lg 10 \<noteq> 0" and "dv (lg 1) (lg 10) = 0"
    and "2 < dv (lg 1000) (lg 10)" and "dv (lg 1000) (lg 10) \<le> 3"
    and "lg10 1 = 0" and "lg10 1000 = 3"
    and "base s = 10" and "d3_base (d3Scale s) = 10" and "getDomain s = (1, 1000)"
    and "3 < minimumNumberOfTicks s"
  shows "(case logTickGenerator lg dv (d3_log_ticks lg10 other) s of
           None \<Rightarrow> False
         | Some ticks \<Rightarrow>
             ticks = [1, 2, 3, 4, 5, 6, 7, 8, 9, 10, 20, 30, 40, 50, 60, 70, 80, 90,
                      100, 200, 300, 400, 500, 600, 700, 800, 900, 1000] \<and>
             sorted_wrt (<) ticks \<and>
             1 \<in> set ticks \<and> 10 \<in> set ticks \<and> 100 \<in> set ticks \<and> 1000 \<in> set ticks)"
proof -
  have p: "powerTicks (base s) (tick_i lg dv s) (tick_j lg dv s) = Some [1, 10, 100]"
    by (rule powerTicks_1_1000 [where lg = lg and dv = dv, OF assms(1-4) assms(7) assms(9)])
  have "d3_domain (d3Scale s) = (1, 1000)"
    using assms(9) by (simp add: getDomain_def backingScaleDomain_get_def)
  then have d: "d3_log_ticks lg10 other (d3Scale s) (minimumNumberOfTicks s) =
     [1, 2, 3, 4, 5, 6, 7, 8, 9, 10, 20, 30, 40, 50, 60, 70, 80, 90,
      100, 200, 300, 400, 500, 600, 700, 800, 900, 1000]"
    using assms(5,6,8,10) by (rule_tac d3_log_ticks_1_1000) simp_all
  have "logTickGenerator lg dv (d3_log_ticks lg10 other) s =
     Some [1, 2, 3, 4, 5, 6, 7, 8, 9, 10, 20, 30, 40, 50, 60, 70, 80, 90,
      100, 200, 300, 400, 500, 600, 700, 800, 900, 1000]"
    using assms(10) by (simp add: logTickGenerator_def p d)
  then show ?thesis by simp
qed

theorem logTickGenerator_1_1000_witness:
  "logTickGenerator ln (/) (d3_log_ticks (\<lambda>x. ln x / ln 10) (\<lambda>d n. []))
     \<lparr>base = 10, minimumNumberOfTicks = 4,
      d3Scale = \<lparr>d3_base = 10, d3_domain = (1, 1000), d3_range = (0, 1)\<rparr>\<rparr>
   = Some [1, 2, 3, 4, 5, 6, 7, 8, 9, 10, 20, 30, 40, 50, 60, 70, 80, 90,
           100, 200, 300, 400, 500, 600, 700, 800, 900, 1000]"
proof -
  let ?s = "\<lparr>base = 10, minimumNumberOfTicks = 4,
      d3Scale = \<lparr>d3_base = 10, d3_domain = (1, 1000), d3_range = (0, 1)\<rparr>\<rparr>"
  have h: "ln (10::real) \<noteq> 0" "ln (1::real) / ln (10::real) = 0"
    "2 < ln (1000::real) / ln 10" "ln (1000::real) / ln 10 \<le> 3"
    "(\<lambda>x::real. ln x / ln 10) 1 = 0" "(\<lambda>x::real. ln x / ln 10) 1000 = 3"
    "base ?s = 10" "d3_base (d3Scale ?s) = 10" "getDomain ?s = (1, 1000)"
    "3 < minimumNumberOfTicks ?s"
    by (simp_all add: ln_quotient_1000 getDomain_def backingScaleDomain_get_def)
  show ?thesis
    using logTickGenerator_1_1000
      [where lg = ln and dv = "(/)" and ?lg10.0 = "\<lambda>x. ln x / ln 10" and s = ?s
         and other = "\<lambda>d n. []", OF h]
    by (simp split: option.splits)
qed

text \<open>
  With \<open>minimumNumberOfTicks = 3\<close> the three powers suffice and the generator returns them:
  \<open>new Log(10, 3)\<close> with the domain \<open>[1, 1000]\<close> has the ticks \<open>1, 10, 100\<close>, without 1000,
  whatever the d3 scale's own generator would return.
\<close>

lemma logTickGenerator_three_ticks:
  "logTickGenerator ln (/) native
     \<lparr>base = 10, minimumNumberOfTicks = 3,
      d3Scale = \<lparr>d3_base = 10, d3_domain = (1, 1000), d3_range = (0, 1)\<rparr>\<rparr>
   = Some [1, 10, 100]"
proof -
  let ?s = "\<lparr>base = 10, minimumNumberOfTicks = 3,
      d3Scale = \<lparr>d3_base = 10, d3_domain = (1, 1000), d3_range = (0, 1)\<rparr>\<rparr>"
  have "powerTicks (base ?s) (tick_i ln (/) ?s) (tick_j ln (/) ?s) = Some [1, 10, 100]"
    by (rule powerTicks_1_1000 [where lg = ln and dv = "(/)"];
        simp add: ln_quotient_1000 getDomain_def backingScaleDomain_get_def)
  then show ?thesis
    by (simp add: logTickGenerator_def)
qed

text \<open>
  Claim C3.  For base 10, the domain \<open>[1, 10]\<close> and \<open>minimumNumberOfTicks = 4\<close> the main
  loop collects the single tick 1, fewer than 4; the generator discards it and returns what
  the d3 scale's own generator gives when asked for \<open>minimumNumberOfTicks\<close> ticks, whatever
  that generator is.  d3's generator gives the ten ticks \<open>1, 2, ..., 10\<close>, at least 4.
\<close>

theorem logTickGenerator_1_10:
  assumes "lg 10 \<noteq> 0" and "dv (lg 1) (lg 10) = 0" and "dv (lg 10) (lg 10) = 1"
    and "lg10 1 = 0" and "lg10 10 = 1"
    and "base s = 10" and "d3_base (d3Scale s) = 10" and "getDomain s = (1, 10)"
    and "minimumNumberOfTicks s = 4"
  shows "powerTicks (base s) (tick_i lg dv s) (tick_j lg dv s) = Some [1] \<and>
         real (length [1::real]) < minimumNumberOfTicks s \<and>
         logTickGenerator lg dv native s = Some (native (d3Scale s) (minimumNumberOfTicks s)) \<and>
         logTickGenerator lg dv (d3_log_ticks lg10 other) s
           = Some [1, 2, 3, 4, 5, 6, 7, 8, 9, 10] \<and>
         4 \<le> length [1, 2, 3, 4, 5, 6, 7, 8, 9, 10::real]"
proof -
  have p: "powerTicks (base s) (tick_i lg dv s) (tick_j lg dv s) = Some [1]"
    using assms(6) tick_bounds_1_10 [where lg = lg and dv = dv, OF assms(1-3) assms(6) assms(8)]
    by (simp add: powerTicks_def ticks_up_0_1)
  have g: "logTickGenerator lg dv nat_ticks s = Some (nat_ticks (d3Scale s) (minimumNumberOfTicks s))"
    for nat_ticks
    using assms(9) by (simp add: logTickGenerator_def p)
  have "d3_domain (d3Scale s) = (1, 10)"
    using assms(8) by (simp add: getDomain_def backingScaleDomain_get_def)
  then have d: "d3_log_ticks lg10 other (d3Scale s) (minimumNumberOfTicks s) =
     [1, 2, 3, 4, 5, 6, 7, 8, 9, 10]"
    using assms(4,5,7,9) by (rule_tac d3_log_ticks_1_10) simp_all
  show ?thesis
    using assms(9) d by (simp add: p g)
qed

theorem logTickGenerator_1_10_witness:
  "logTickGenerator ln (/) (d3_log_ticks (\<lambda>x. ln x / ln 10) (\<lambda>d n. [])) (Log 10 4)
     = Some [1, 2, 3, 4, 5, 6, 7, 8, 9, 10]"
proof -
  have h: "ln (10::real) \<noteq> 0" "ln (1::real) / ln (10::real) = 0"
    "ln (10::real) / ln (10::real) = 1"
    "(\<lambda>x::real. ln x / ln 10) 1 = 0" "(\<lambda>x::real. ln x / ln 10) 10 = 1"
    "base (Log 10 4) = 10" "d3_base (d3Scale (Log 10 4)) = 10"
    "getDomain (Log 10 4) = (1, 10)" "minimumNumberOfTicks (Log 10 4) = 4"
    by (simp_all add: Log_def Let_def defaultExtent_def getDomain_def backingScaleDomain_get_def)
  show ?thesis
    using logTickGenerator_1_10
      [where lg = ln and dv = "(/)" and ?lg10.0 = "\<lambda>x. ln x / ln 10" and s = "Log 10 4"
         and other = "\<lambda>d n. []" and native = "\<lambda>d n. []", OF h]
    by blast
qed

subsection \<open>Precision is checked at construction\<close>

lemma floor_fixpoint_Ints: "(of_int \<lfloor>x::real\<rfloor> \<noteq> x) = (x \<notin> \<int>)"
  by (auto simp: of_int_floor_cancel Ints_def)

lemma verifyPrecision_Fin:
  "verifyPrecision (Fin x) =
     (if x < 0 \<or> 20 < x
      then Inl (RangeError (ascii ''Formatter precision must be between 0 and 20''))
      else if x \<notin> \<int>
      then Inl (RangeError (ascii ''Formatter precision must be an integer''))
      else Inr ())"
  unfolding floor_fixpoint_Ints [symmetric]
  by (simp add: verifyPrecision_def strict_neq_def eq_commute del: ascii_simps)

text \<open>
  Claim C5.  For every finite precision that is negative, greater than 20 or not an integer,
  and for \<open>NaN\<close> and the infinities, \<open>fixed\<close> and \<open>general\<close> return a
  \<open>RangeError\<close> and no formatter: the error arises at construction, before any value is
  formatted.  For every integer in \<open>[0, 20]\<close> both return a formatter.
\<close>

theorem precision_checked_at_construction:
  "(x < 0 \<or> 20 < x \<longrightarrow>
      fixed (Fin x) = Inl (RangeError (ascii ''Formatter precision must be between 0 and 20'')) \<and>
      general (Fin x) = Inl (RangeError (ascii ''Formatter precision must be between 0 and 20''))) \<and>
   (0 \<le> x \<and> x \<le> 20 \<and> x \<notin> \<int> \<longrightarrow>
      fixed (Fin x) = Inl (RangeError (ascii ''Formatter precision must be an integer'')) \<and>
      general (Fin x) = Inl (RangeError (ascii ''Formatter precision must be an integer''))) \<and>
   (x \<in> \<int> \<and> 0 \<le> x \<and> x \<le> 20 \<longrightarrow>
      (\<exists>f. fixed (Fin x) = Inr f) \<and> (\<exists>f. general (Fin x) = Inr f)) \<and>
   (\<forall>n. n = NaN \<or> n = PosInf \<or> n = NegInf \<longrightarrow>
      (\<exists>msg. fixed n = Inl (RangeError msg)) \<and> (\<exists>msg. general n = Inl (RangeError msg)))"
proof -
  have nonfin: "\<exists>msg. verifyPrecision NaN = Inl (RangeError msg)"
    "\<exists>msg. verifyPrecision PosInf = Inl (RangeError msg)"
    "\<exists>msg. verifyPrecision NegInf = Inl (RangeError msg)"
    by (simp_all add: verifyPrecision_def strict_neq_def del: ascii_simps)
  have lift: "\<And>p e. verifyPrecision p = Inl e \<Longrightarrow> fixed p = Inl e \<and> general p = Inl e"
    by (simp add: fixed_def general_def)
  have ok: "\<And>p. verifyPrecision p = Inr () \<Longrightarrow> (\<exists>f. fixed p = Inr f) \<and> (\<exists>f. general p = Inr f)"
    by (simp add: fixed_def general_def)
  have range: "x < 0 \<or> 20 < x \<Longrightarrow> verifyPrecision (Fin x) =
      Inl (RangeError (ascii ''Formatter precision must be between 0 and 20''))"
    by (simp add: verifyPrecision_Fin del: ascii_simps)
  have frac: "0 \<le> x \<and> x \<le> 20 \<and> x \<notin> \<int> \<Longrightarrow> verifyPrecision (Fin x) =
      Inl (RangeError (ascii ''Formatter precision must be an integer''))"
    by (simp add: verifyPrecision_Fin not_less del: ascii_simps)
  have good: "x \<in> \<int> \<and> 0 \<le> x \<and> x \<le> 20 \<Longrightarrow> verifyPrecision (Fin x) = Inr ()"
    by (auto simp: verifyPrecision_Fin simp del: ascii_simps)
  have c1: "x < 0 \<or> 20 < x \<longrightarrow>
      fixed (Fin x) = Inl (RangeError (ascii ''Formatter precision must be between 0 and 20'')) \<and>
      general (Fin x) = Inl (RangeError (ascii ''Formatter precision must be between 0 and 20''))"
    using lift [OF range] by (rule impI)
  have c2: "0 \<le> x \<and> x \<le> 20 \<and> x \<notin> \<int> \<longrightarrow>
      fixed (Fin x) = Inl (RangeError (ascii ''Formatter precision must be an integer'')) \<and>
      general (Fin x) = Inl (RangeError (ascii ''Formatter precision must be an integer''))"
    using lift [OF frac] by (rule impI)
  have c3: "x \<in> \<int> \<and> 0 \<le> x \<and> x \<le> 20 \<longrightarrow>
      (\<exists>f. fixed (Fin x) = Inr f) \<and> (\<exists>f. general (Fin x) = Inr f)"
    using ok [OF good] by (rule impI)
  have c4: "\<forall>n. n = NaN \<or> n = PosInf \<or> n = NegInf \<longrightarrow>
      (\<exists>msg. fixed n = Inl (RangeError msg)) \<and> (\<exists>msg. general n = Inl (RangeError msg))"
    using nonfin by (auto dest: lift)
  show ?thesis
    by (intro conjI) (rule c1 c2 c3 c4)+
qed

theorem precision_checked_at_construction_witness:
  "fixed (Fin (3 / 2)) = Inl (RangeError (ascii ''Formatter precision must be an integer'')) \<and>
   general (Fin 21) = Inl (RangeError (ascii ''Formatter precision must be between 0 and 20'')) \<and>
   fixed (Fin (- 1)) = Inl (RangeError (ascii ''Formatter precision must be between 0 and 20'')) \<and>
   (\<exists>f. fixed (Fin 3) = Inr f) \<and> (\<exists>f. general (Fin 20) = Inr f)"
proof -
  have "(3 / 2 :: real) \<notin> \<int>"
    unfolding floor_fixpoint_Ints [symmetric] by simp
  moreover have "(3::real) \<in> \<int>" "(20::real) \<in> \<int>" by simp_all
  ultimately show ?thesis
    using precision_checked_at_construction [of "3 / 2"]
      precision_checked_at_construction [of 21]
      precision_checked_at_construction [of "- 1"]
      precision_checked_at_construction [of 3]
      precision_checked_at_construction [of 20]
    by (simp del: ascii_simps)
qed

subsection \<open>The exponential formatter\<close>

lemma verifyPrecision_3 [simp]: "verifyPrecision (Fin 3) = Inr ()"
  by (simp add: verifyPrecision_def strict_neq_def del: ascii_simps)

lemma toString_small:
  "toString_pos 2 = [50]" "toString_pos 3 = [51]" "toString_pos 10 = [49, 48]"
  "toString_pos (5 / 2) = [50, 46, 53]"
  by (simp_all add: toString_pos_def decimal_exponent_def digits.simps shortest_k.simps Let_def)

lemma superscript_small:
  "unicode_superscript [50] = [0xB2]" "unicode_superscript [51] = [0xB3]"
  by (simp_all add: unicode_superscript_def superscript_dict_def)

text \<open>
  The doubles that \<open>Math.log(1000)\<close> and \<open>Math.log(10)\<close> return are
  \<open>243045032034301 / 2^45\<close> and \<open>2592480341699211 / 2^50\<close>.  Their quotient lies between
  \<open>3 - 3 * 2^-52\<close> and \<open>3 - 2^-52\<close>, the midpoints around the double before 3, so the
  division rounds to that double, \<open>3 - 2^-51 = 6755399441055743 / 2^51\<close>, printed
  \<open>2.9999999999999996\<close>.
\<close>

lemma ieee_log_quotient_1000:
  "(2::real) \<le> (243045032034301 / 35184372088832) / (2592480341699211 / 1125899906842624)"
  "(243045032034301 / 35184372088832) / (2592480341699211 / 1125899906842624) < (3::real) - 1 / 2 ^ 52"
  "(3::real) - 3 / 2 ^ 52 < (243045032034301 / 35184372088832) / (2592480341699211 / 1125899906842624)"
  "(3::real) - 1 / 2 ^ 51 = 6755399441055743 / 2251799813685248"
  by simp_all

lemma exponent_math_1000:
  assumes nz: "lg 10 \<noteq> 0" and "2 \<le> dv (lg 1000) (lg 10)" and "dv (lg 1000) (lg 10) < 3"
  shows "exponent_math lg dv (Fin 3) 1000 = ascii ''10'' @ times10 @ [0xB2]"
    and "exponent_math lg dv (Fin 3) (- 1000) = ascii ''-10'' @ times10 @ [0xB2]"
proof -
  have fl: "\<lfloor>dv (lg 1000) (lg 10)\<rfloor> = 2" using assms by (simp add: floor_eq_iff)
  show "exponent_math lg dv (Fin 3) 1000 = ascii ''10'' @ times10 @ [0xB2]"
    using nz fl
    by (simp add: exponent_math_def Math_log_def Let_def toString_small times10_def
        superscript_small)
  show "exponent_math lg dv (Fin 3) (- 1000) = ascii ''-10'' @ times10 @ [0xB2]"
    using nz fl
    by (simp add: exponent_math_def Math_log_def Let_def toString_small times10_def
        superscript_small)
qed

text \<open>
  Claim C6, at the input where the code departs from it.  Whenever the computed quotient
  \<open>Math.log(1000) / Math.log(10)\<close> is below 3, as it is in double arithmetic (for the exact
  division of the two logarithms and for the rounded one alike),
  \<open>exponential(3)(1000)\<close> is \<open>10\<times>10\<^sup>2\<close> and \<open>exponential(3)(-1000)\<close> is
  \<open>-10\<times>10\<^sup>2\<close>: the exponent is 2 and the mantissa 10.
\<close>

theorem exponential_1000_rounded_log:
  assumes "lg 10 \<noteq> 0" and "2 \<le> dv (lg 1000) (lg 10)" and "dv (lg 1000) (lg 10) < 3"
  shows "format_with (exponential lg dv (Fin 3)) (Num (Fin 1000))
           = Inr (ascii ''10'' @ times10 @ [0xB2]) \<and>
         format_with (exponential lg dv (Fin 3)) (Num (Fin (- 1000)))
           = Inr (ascii ''-10'' @ times10 @ [0xB2])"
  using exponent_math_1000 [where lg = lg and dv = dv, OF assms]
  by (simp add: format_with_def exponential_def exponential_format_def)

theorem exponential_1000_rounded_log_witness:
  "format_with
     (exponential (\<lambda>x. if x = 10 then 2592480341699211 / 1125899906842624
                       else 243045032034301 / 35184372088832)
                  (\<lambda>a b. if a = 243045032034301 / 35184372088832 \<and>
                            b = 2592480341699211 / 1125899906842624
                         then 6755399441055743 / 2251799813685248 else a / b)
                  (Fin 3))
     (Num (Fin 1000))
   = Inr (ascii ''10'' @ times10 @ [0xB2])"
proof -
  let ?lg = "\<lambda>x::real. if x = 10 then 2592480341699211 / 1125899906842624
                       else 243045032034301 / 35184372088832 :: real"
  let ?dv = "\<lambda>a b::real. if a = 243045032034301 / 35184372088832 \<and>
                            b = 2592480341699211 / 1125899906842624
                         then 6755399441055743 / 2251799813685248 else a / b :: real"
  have h: "?lg 10 \<noteq> 0" "2 \<le> ?dv (?lg 1000) (?lg 10)" "?dv (?lg 1000) (?lg 10) < 3"
    by simp_all
  show ?thesis
    using exponential_1000_rounded_log [where lg = ?lg and dv = ?dv, OF h] by simp
qed

text \<open>
  With the exact logarithm and the exact division the two values are \<open>10\<^sup>3\<close> and
  \<open>-10\<^sup>3\<close>.
\<close>

lemma exponential_1000_exact_log:
  "format_with (exponential ln (/) (Fin 3)) (Num (Fin 1000)) = Inr (ascii ''10'' @ [0xB3])"
  "format_with (exponential ln (/) (Fin 3)) (Num (Fin (- 1000))) = Inr (ascii ''-10'' @ [0xB3])"
proof -
  have nz: "ln (10::real) \<noteq> 0" by simp
  have fl: "\<lfloor>ln (1000::real) / ln 10\<rfloor> = 3" by (simp add: ln_quotient_1000)
  show "format_with (exponential ln (/) (Fin 3)) (Num (Fin 1000)) = Inr (ascii ''10'' @ [0xB3])"
    using nz fl
    by (simp add: format_with_def exponential_def exponential_format_def exponent_math_def
        Math_log_def Let_def toString_small superscript_small)
  show "format_with (exponential ln (/) (Fin 3)) (Num (Fin (- 1000))) = Inr (ascii ''-10'' @ [0xB3])"
    using nz fl
    by (simp add: format_with_def exponential_def exponential_format_def exponent_math_def
        Math_log_def Let_def toString_small superscript_small)
qed

text \<open>
  The rest of the claim holds for every \<open>Math.log\<close> and division:
  \<open>exponential(3)(2500)\<close> when the computed quotient lies in \<open>[3, 4)\<close>, and the values that
  skip the exponent computation.
\<close>

lemma exponential_2500:
  assumes nz: "lg 10 \<noteq> 0" and "3 \<le> dv (lg 2500) (lg 10)" and "dv (lg 2500) (lg 10) < 4"
  shows "format_with (exponential lg dv (Fin 3)) (Num (Fin 2500))
           = Inr (ascii ''2.5'' @ times10 @ [0xB3])"
proof -
  have fl: "\<lfloor>dv (lg 2500) (lg 10)\<rfloor> = 3" using assms by (simp add: floor_eq_iff)
  show ?thesis
    using nz fl
    by (simp add: format_with_def exponential_def exponential_format_def exponent_math_def
        Math_log_def Let_def toString_small superscript_small times10_def)
qed

lemma exponential_special_values:
  assumes "verifyPrecision p = Inr ()"
  shows "format_with (exponential lg dv p) (Num (Fin 0)) = Inr (ascii ''0'')"
    and "format_with (exponential lg dv p) Undefined = Inr (ascii ''undefined'')"
    and "format_with (exponential lg dv p) (Num NaN) = Inr (ascii ''NaN'')"
    and "format_with (exponential lg dv p) (Num PosInf) = Inr (ascii ''Infinity'')"
    and "format_with (exponential lg dv p) (Num NegInf) = Inr (ascii ''-Infinity'')"
    and "loose_eq_zero d \<or> d = Undefined \<or> isNaN d \<or> abs_is_Infinity d \<Longrightarrow>
           format_with (exponential lg dv p) d = Inr (String_val d)"
  using assms by (simp_all add: format_with_def exponential_def exponential_format_def)

subsection \<open>shortScale: the range of scientific notation\<close>

lemma length_suffixes [simp]: "length suffixes = 5"
  by (simp add: suffixes_def)

lemma top_suffix: "int (length suffixes) - 1 = 4"
  by simp

lemma shortScale_limits:
  "pow10 (Fin (3 * (real (length suffixes) + 1))) = Fin (10 ^ 18)"
  "pow10 (nneg (Fin (real p))) = Fin (10 powi (- int p))"
proof -
  show "pow10 (Fin (3 * (real (length suffixes) + 1))) = Fin (10 ^ 18)" by simp
  have "- real p = of_int (- int p)" by simp
  then have "\<lfloor>- real p\<rfloor> = - int p" by (simp only: floor_of_int)
  then show "pow10 (nneg (Fin (real p))) = Fin (10 powi (- int p))" by simp
qed

lemma min_le_1: "(10::real) powi (- int p) \<le> 1"
proof -
  have "(1::real) \<le> 10 ^ p" by simp
  then have "inverse ((10::real) ^ p) \<le> 1" by (simp add: inverse_le_1_iff)
  then show ?thesis by (simp add: power_int_minus)
qed

lemma shortScale_format_Fin:
  "shortScale_format exponentFormatter fixedFormatter (Fin (real p)) (Fin x) =
     (if (\<bar>x\<bar> < 10 powi (- int p) \<or> 10 ^ 18 \<le> \<bar>x\<bar>) \<and> x \<noteq> 0
      then exponentFormatter (Fin x)
      else
        let idx = find_idx (Fin \<bar>x\<bar>) (- 1);
            output = (if idx = - 1 then fixedFormatter (Fin x)
                      else suffixed fixedFormatter (Fin x) idx)
        in if (0 < x \<and> take 4 output = ascii ''1000'')
              \<or> (x < 0 \<and> take 5 output = ascii ''-1000'')
           then (if idx < 4 then suffixed fixedFormatter (Fin x) (idx + 1)
                 else exponentFormatter (Fin x))
           else output)"
  unfolding shortScale_format_def shortScale_limits Let_def Math_abs.simps nless.simps
    nge.simps strict_neq_def top_suffix
  by (simp del: ascii_simps split del: if_split)

lemma find_idx_top:
  assumes "10 ^ 15 \<le> a"
  shows "find_idx (Fin a) (- 1) = 4"
proof -
  have "(1000::real) \<le> a" "(1000::real) ^ 2 \<le> a" "(1000::real) ^ 3 \<le> a" "(1000::real) ^ 4 \<le> a"
    "(1000::real) ^ 5 \<le> a"
    using assms by simp_all
  then show ?thesis
    by (simp add: find_idx.simps [of _ "- 1"] find_idx.simps [of _ 0] find_idx.simps [of _ 1]
        find_idx.simps [of _ 2] find_idx.simps [of _ 3] find_idx.simps [of _ 4])
qed


text \<open>Values of the d3 formatters and of \<open>shortScale\<close> at concrete numbers.\<close>

lemmas print_defs = d3_format_e_def d3_format_f_def d3_sign_prefix_def formatted_zero_def
  toExponential_pos_def
  toFixed_digits_def decimal_exponent_def digits.simps exponent_part_def frac_shift.simps Let_def

lemma verifyPrecision_0 [simp]: "verifyPrecision (Fin 0) = Inr ()"
  by (simp add: verifyPrecision_def strict_neq_def del: ascii_simps)

lemma shortScale_apply:
  "format_with (shortScale (Fin 3)) (Num (Fin x)) =
     Inr (shortScale_format (d3_format_e 3) (d3_format_f 3) (Fin (real 3)) (Fin x))"
  "format_with (shortScale (Fin 0)) (Num (Fin x)) =
     Inr (shortScale_format (d3_format_e 0) (d3_format_f 0) (Fin (real 0)) (Fin x))"
  by (simp_all add: format_with_def shortScale_def)

lemma replicate_small: "replicate 2 x = [x, x]" "replicate 3 x = [x, x, x]"
  by (simp_all add: numeral_2_eq_2 numeral_3_eq_3)

lemma find_idx_values:
  "find_idx (Fin 999999) (- 1) = 0"
  by (simp add: find_idx.simps)

lemma d3_format_e_values:
  "d3_format_e 3 (Fin (10 ^ 15)) = ascii ''1.000e+15''"
  "d3_format_e 3 (Fin 50000000000000000) = ascii ''5.000e+16''"
  "d3_format_e 3 (Fin (10 ^ 18)) = ascii ''1.000e+18''"
  "d3_format_e 3 (Fin 999999900000000000) = ascii ''1.000e+18''"
  by (simp_all add: print_defs)

lemma d3_format_f_values:
  "d3_format_f 3 (Fin 1) = ascii ''1.000''"
  "d3_format_f 3 (Fin 50) = ascii ''50.000''"
  "d3_format_f 3 (Fin (999999 / 1000)) = ascii ''999.999''"
  "d3_format_f 0 (Fin (999999 / 1000)) = ascii ''1000''"
  "d3_format_f 0 (Fin (999999 / 1000000)) = ascii ''1''"
  "d3_format_f 0 (Fin (- (999999 / 1000))) = ascii ''-1000''"
  "d3_format_f 0 (Fin (- (999999 / 1000000))) = ascii ''-1''"
  "d3_format_f 3 (Fin (9999999 / 10000)) = ascii ''1000.000''"
  by (simp_all add: print_defs replicate_small)

lemma shortScale_values:
  "format_with (shortScale (Fin 3)) (Num (Fin (10 ^ 15))) = Inr (ascii ''1.000Q'')"
  "format_with (shortScale (Fin 3)) (Num (Fin 50000000000000000)) = Inr (ascii ''50.000Q'')"
  "format_with (shortScale (Fin 3)) (Num (Fin 999999)) = Inr (ascii ''999.999K'')"
  "format_with (shortScale (Fin 0)) (Num (Fin 999999)) = Inr (ascii ''1M'')"
  "format_with (shortScale (Fin 0)) (Num (Fin (- 999999))) = Inr (ascii ''-1M'')"
  "format_with (shortScale (Fin 3)) (Num (Fin (9999999 * 10 ^ 11))) = Inr (ascii ''1.000e+18'')"
  unfolding shortScale_apply shortScale_format_Fin
  by (simp_all add: find_idx_values find_idx_top d3_format_f_values d3_format_e_values
      suffixed_def suffixes_def)


text \<open>
  The whole tier: a magnitude in \<open>[10^15, 10^18)\<close> is rendered as
  \<open>fixedFormatter(num / 10^15)\<close> with the suffix \<open>Q\<close>, and scientifically only when that
  rendering starts with \<open>1000\<close>; from \<open>10^18\<close> on the rendering is scientific.  Both hold
  for every precision and whatever the two d3 formatters are.
\<close>

lemma shortScale_Q_tier:
  assumes a: "10 ^ 15 \<le> \<bar>x\<bar>" "\<bar>x\<bar> < 10 ^ 18"
  shows "shortScale_format exponentFormatter fixedFormatter (Fin (real p)) (Fin x)
        = (let output = fixedFormatter (Fin (x / 10 ^ 15)) @ ascii ''Q''
           in if (0 < x \<and> take 4 output = ascii ''1000'')
                 \<or> (x < 0 \<and> take 5 output = ascii ''-1000'')
              then exponentFormatter (Fin x) else output)"
proof -
  have lo: "\<not> \<bar>x\<bar> < 10 powi (- int p)"
  proof -
    have "(1::real) < 10 ^ 15" by simp
    then show ?thesis using a(1) min_le_1 [of p] by linarith
  qed
  have q: "suffixes ! 4 = of_char CHR ''Q''" by (simp add: suffixes_def)
  show ?thesis
    unfolding shortScale_format_Fin
    using lo a(2) by (simp add: find_idx_top [OF a(1)] suffixed_def q Let_def)
qed

lemma shortScale_scientific_above:
  assumes "10 ^ 18 \<le> \<bar>x\<bar>"
  shows "shortScale_format exponentFormatter fixedFormatter (Fin (real p)) (Fin x)
           = exponentFormatter (Fin x)"
proof -
  have "x \<noteq> 0" using assms by auto
  then show ?thesis
    unfolding shortScale_format_Fin using assms by simp
qed

subsection \<open>shortScale: no mantissa of 1000\<close>

lemma digits_nonempty: "digits n \<noteq> []"
  by (subst digits.simps) simp

lemma digits_single: "n < 10 \<Longrightarrow> digits n = [48 + n]"
  by (subst digits.simps) simp

lemma digits_chars: "c \<in> set (digits n) \<Longrightarrow> 48 \<le> c \<and> c \<le> 57"
proof (induction n rule: digits.induct)
  case (1 n)
  show ?case
  proof (cases "n < 10")
    case True
    with "1.prems" show ?thesis by (simp add: digits_single)
  next
    case False
    have "digits n = digits (n div 10) @ [48 + n mod 10]"
      using False by (subst digits.simps) simp
    with "1.prems" "1.IH" [OF False] show ?thesis
      by auto
  qed
qed

lemma length_digits_le: "0 < k \<Longrightarrow> n < 10 ^ k \<Longrightarrow> length (digits n) \<le> k"
proof (induction n arbitrary: k rule: digits.induct)
  case (1 n)
  show ?case
  proof (cases "n < 10")
    case True
    with "1.prems" show ?thesis by (simp add: digits_single)
  next
    case False
    have eq: "digits n = digits (n div 10) @ [48 + n mod 10]"
      using False by (subst digits.simps) simp
    have "k \<noteq> 1" using False "1.prems" by auto
    then obtain j where j: "k = Suc j" "0 < j" using "1.prems"(1) by (cases k) auto
    have "n div 10 < 10 ^ j"
      using "1.prems"(2) j by (simp add: less_mult_imp_div_less mult.commute)
    from "1.IH" [OF False j(2) this] show ?thesis
      by (simp add: eq j)
  qed
qed

lemma not_1000:
  assumes "s \<noteq> []" and "48 \<le> hd s"
    and "length s = 1 \<or> (2 \<le> length s \<and> s ! 1 \<noteq> 48)" and "length t \<le> 1"
  shows "take 4 (s @ t) \<noteq> ascii ''1000''"
    and "take 5 (ascii ''-'' @ s @ t) \<noteq> ascii ''-1000''"
    and "take 5 (s @ t) \<noteq> ascii ''-1000''"
proof -
  obtain a s' where s: "s = a # s'" using assms(1) by (cases s) auto
  have a: "48 \<le> a" using assms(2) s by simp
  consider (one) "s' = []" | (more) b s'' where "s' = b # s''" "b \<noteq> 48"
    using assms(3) s by (cases s') auto
  then have "take 4 (s @ t) \<noteq> ascii ''1000'' \<and> take 5 (ascii ''-'' @ s @ t) \<noteq> ascii ''-1000''"
  proof cases
    case one
    have "length (take 4 (s @ t)) \<le> 2" "length (take 5 (ascii ''-'' @ s @ t)) \<le> 3"
      using assms(4) s one by simp_all
    then show ?thesis by (auto dest: arg_cong [where f = length])
  next
    case more
    then show ?thesis using s by simp
  qed
  moreover have "take 5 (s @ t) \<noteq> ascii ''-1000''"
    using s a by simp
  ultimately show "take 4 (s @ t) \<noteq> ascii ''1000''"
    and "take 5 (ascii ''-'' @ s @ t) \<noteq> ascii ''-1000''"
    and "take 5 (s @ t) \<noteq> ascii ''-1000''"
    by simp_all
qed

lemma toFixed_small_shape:
  assumes "0 \<le> y" and "y < 1"
  shows "toFixed_digits y p \<noteq> [] \<and> 48 \<le> hd (toFixed_digits y p) \<and>
         (length (toFixed_digits y p) = 1 \<or>
          (2 \<le> length (toFixed_digits y p) \<and> toFixed_digits y p ! 1 \<noteq> 48))"
proof -
  define n where "n = nat \<lfloor>y * 10 ^ p + 1 / 2\<rfloor>"
  have "y * 10 ^ p < 10 ^ p" using assms by simp
  then have "y * 10 ^ p + 1 / 2 < 10 ^ p + 1" by linarith
  then have "\<lfloor>y * 10 ^ p + 1 / 2\<rfloor> \<le> 10 ^ p"
    by (simp add: floor_le_iff)
  then have n: "n \<le> 10 ^ p"
    unfolding n_def by (simp add: nat_le_iff)
  show ?thesis
  proof (cases "p = 0")
    case True
    then have "n < 10" using n by simp
    then have "digits n = [48 + n]" by (rule digits_single)
    moreover have "toFixed_digits y p = digits n"
      using True unfolding toFixed_digits_def n_def by (simp add: Let_def)
    ultimately show ?thesis by simp
  next
    case False
    have "n < 10 ^ (p + 1)" using n by (simp add: le_less_trans [OF n])
    then have len: "length (digits n) \<le> p + 1" by (rule length_digits_le [rotated]) simp
    define m' where "m' = replicate (p + 1 - length (digits n)) 48 @ digits n"
    have lm: "length m' = p + 1" using len by (simp add: m'_def)
    then obtain a r where m': "m' = a # r" "length r = p" by (cases m') auto
    have "a \<in> set m'" using m' by simp
    then have a: "48 \<le> a"
      using digits_chars [of a n] by (auto simp: m'_def)
    have "toFixed_digits y p = take (length m' - p) m' @ ascii ''.'' @ drop (length m' - p) m'"
      using False unfolding toFixed_digits_def n_def m'_def by (simp add: Let_def)
    then have "toFixed_digits y p = take 1 m' @ ascii ''.'' @ drop 1 m'"
      using lm by simp
    then show ?thesis using m' a by simp
  qed
qed

lemma toExponential_shape:
  "toExponential_pos y p \<noteq> [] \<and> 48 \<le> hd (toExponential_pos y p) \<and>
   2 \<le> length (toExponential_pos y p) \<and> toExponential_pos y p ! 1 \<noteq> 48"
proof -
  define n0 where "n0 = nat \<lfloor>y * 10 powi (int p - (decimal_exponent y - 1)) + 1 / 2\<rfloor>"
  define n where "n = (if 10 ^ (p + 1) \<le> n0 then 10 ^ p else n0)"
  define e where "e = (if 10 ^ (p + 1) \<le> n0 then decimal_exponent y - 1 + 1
                       else decimal_exponent y - 1)"
  have n: "n < 10 ^ (p + 1)" by (simp add: n_def)
  have ex: "exponent_part e = 101 # tl (exponent_part e)"
    by (simp add: exponent_part_def)
  have te: "toExponential_pos y p =
      (if p = 0 then digits n else take 1 (digits n) @ ascii ''.'' @ drop 1 (digits n))
        @ exponent_part e"
    unfolding toExponential_pos_def n0_def n_def e_def by (simp add: Let_def)
  show ?thesis
  proof (cases "p = 0")
    case True
    then have "digits n = [48 + n]" using n by (simp add: digits_single)
    then have "toExponential_pos y p = (48 + n) # 101 # tl (exponent_part e)"
      using True te ex by simp
    then show ?thesis by simp
  next
    case False
    obtain a r where d: "digits n = a # r" using digits_nonempty [of n] by (cases "digits n") auto
    then have "a \<in> set (digits n)" by simp
    then have "48 \<le> a" using digits_chars by blast
    then show ?thesis using False te d by simp
  qed
qed

lemma find_idx_exit:
  "i \<le> find_idx (Fin a) i \<and> (find_idx (Fin a) i < 4 \<longrightarrow> a < 1000 powi (find_idx (Fin a) i + 2))"
proof (induction "Fin a" i rule: find_idx.induct)
  case (1 idx)
  show ?case
  proof (cases "nge (Fin a) (Fin (1000 powi (idx + 2))) \<and> idx < int (length suffixes) - 1")
    case True
    then have "find_idx (Fin a) idx = find_idx (Fin a) (idx + 1)"
      by (subst find_idx.simps) simp
    with "1.hyps" [OF True] show ?thesis by simp
  next
    case False
    then have "find_idx (Fin a) idx = idx"
      by (subst find_idx.simps) auto
    with False show ?thesis by auto
  qed
qed

lemma d3_format_e_not_1000:
  assumes "x \<noteq> 0"
  shows "(0 < x \<longrightarrow> take 4 (d3_format_e p (Fin x)) \<noteq> ascii ''1000'') \<and>
         (x < 0 \<longrightarrow> take 5 (d3_format_e p (Fin x)) \<noteq> ascii ''-1000'')"
proof -
  let ?s = "toExponential_pos \<bar>x\<bar> p"
  have sh: "?s \<noteq> []" "48 \<le> hd ?s" "length ?s = 1 \<or> (2 \<le> length ?s \<and> ?s ! 1 \<noteq> 48)"
    using toExponential_shape [of "\<bar>x\<bar>" p] by auto
  have e: "d3_format_e p (Fin x) = ?s \<or> d3_format_e p (Fin x) = ascii ''-'' @ ?s"
    using assms by (simp add: d3_format_e_def d3_sign_prefix_def)
  have pos: "0 < x \<Longrightarrow> d3_format_e p (Fin x) = ?s"
    by (simp add: d3_format_e_def d3_sign_prefix_def)
  show ?thesis
    using not_1000 [OF sh, of "[]"] e pos by auto
qed

lemma d3_format_f_not_1000:
  assumes "\<bar>y\<bar> < 1" and "length t \<le> 1"
  shows "(0 < y \<longrightarrow> take 4 (d3_format_f p (Fin y) @ t) \<noteq> ascii ''1000'') \<and>
         (y < 0 \<longrightarrow> take 5 (d3_format_f p (Fin y) @ t) \<noteq> ascii ''-1000'')"
proof -
  let ?s = "toFixed_digits \<bar>y\<bar> p"
  have sh: "?s \<noteq> []" "48 \<le> hd ?s" "length ?s = 1 \<or> (2 \<le> length ?s \<and> ?s ! 1 \<noteq> 48)"
    using toFixed_small_shape [of "\<bar>y\<bar>" p] assms(1) by auto
  have small: "\<not> (10::real) ^ 21 \<le> \<bar>y\<bar>"
    using assms(1) by (smt (verit) one_le_power)
  have f: "d3_format_f p (Fin y) = ?s \<or> d3_format_f p (Fin y) = ascii ''-'' @ ?s"
    using small by (simp add: d3_format_f_def d3_sign_prefix_def)
  have pos: "0 < y \<Longrightarrow> d3_format_f p (Fin y) = ?s"
    using small by (simp add: d3_format_f_def d3_sign_prefix_def)
  show ?thesis
    using not_1000 [OF sh assms(2)] f pos by auto
qed

lemma shortScale_d3_not_1000:
  "(0 < x \<longrightarrow>
      take 4 (shortScale_format (d3_format_e p) (d3_format_f p) (Fin (real p)) (Fin x))
        \<noteq> ascii ''1000'') \<and>
   (x < 0 \<longrightarrow>
      take 5 (shortScale_format (d3_format_e p) (d3_format_f p) (Fin (real p)) (Fin x))
        \<noteq> ascii ''-1000'')"
proof (cases "x = 0")
  case True
  then show ?thesis by simp
next
  case False
  note e = d3_format_e_not_1000 [OF False, of p]
  define idx where "idx = find_idx (Fin \<bar>x\<bar>) (- 1)"
  define out1 where "out1 = (if idx = - 1 then d3_format_f p (Fin x)
                                 else suffixed (d3_format_f p) (Fin x) idx)"
  have r: "shortScale_format (d3_format_e p) (d3_format_f p) (Fin (real p)) (Fin x) =
     (if (\<bar>x\<bar> < 10 powi (- int p) \<or> 10 ^ 18 \<le> \<bar>x\<bar>) \<and> x \<noteq> 0
      then d3_format_e p (Fin x)
      else if (0 < x \<and> take 4 out1 = ascii ''1000'')
              \<or> (x < 0 \<and> take 5 out1 = ascii ''-1000'')
           then (if idx < 4 then suffixed (d3_format_f p) (Fin x) (idx + 1)
                 else d3_format_e p (Fin x))
           else out1)"
    unfolding shortScale_format_Fin idx_def out1_def Let_def ..
  have bump: "idx < 4 \<Longrightarrow>
      (0 < x \<longrightarrow> take 4 (suffixed (d3_format_f p) (Fin x) (idx + 1)) \<noteq> ascii ''1000'') \<and>
      (x < 0 \<longrightarrow> take 5 (suffixed (d3_format_f p) (Fin x) (idx + 1)) \<noteq> ascii ''-1000'')"
  proof -
    assume lt: "idx < 4"
    have ex: "- 1 \<le> idx" "\<bar>x\<bar> < 1000 powi (idx + 2)"
      using find_idx_exit [of "- 1" "\<bar>x\<bar>"] lt unfolding idx_def by auto
    have pos: "(0::real) < 1000 powi (idx + 2)" by simp
    let ?y = "x / 1000 powi (idx + 2)"
    have y: "\<bar>?y\<bar> < 1" using ex(2) pos by (simp add: abs_if divide_simps split: if_splits)
    have npos: "\<not> (1000::real) powi (idx + 2) < 0"
      by (simp add: not_less)
    have sgn: "(0 < ?y) = (0 < x)" "(?y < 0) = (x < 0)"
      using npos by (auto simp: zero_less_divide_iff divide_less_0_iff)
    have "suffixed (d3_format_f p) (Fin x) (idx + 1) =
        d3_format_f p (Fin ?y) @ [suffixes ! nat (idx + 1)]"
      by (simp add: suffixed_def add.commute)
    then show ?thesis
      using d3_format_f_not_1000 [OF y, of "[suffixes ! nat (idx + 1)]" p] sgn by simp
  qed
  show ?thesis
    unfolding r using e bump by auto
qed

text \<open>
  Claim C8.  \<open>shortScale(3)(999999)\<close> is \<open>999.999K\<close>, not \<open>1000K\<close>.  When the first
  rendering of a number in the suffix range starts with \<open>1000\<close> (or \<open>-1000\<close> for a negative
  number), the result is the rendering with the next suffix, or the scientific one when the
  suffix was already \<open>Q\<close>; this holds for any two d3 formatters.  With d3's formatters no
  result for a positive number starts with \<open>1000\<close> and none for a negative number with
  \<open>-1000\<close>.
\<close>

theorem shortScale_bumps_1000:
  "format_with (shortScale (Fin 3)) (Num (Fin 999999)) = Inr (ascii ''999.999K'') \<and>
   (let idx = find_idx (Fin \<bar>x\<bar>) (- 1);
        first = (if idx = - 1 then fixedFormatter (Fin x)
                 else suffixed fixedFormatter (Fin x) idx)
    in (x = 0 \<or> (10 powi (- int p) \<le> \<bar>x\<bar> \<and> \<bar>x\<bar> < 10 ^ 18)) \<and>
       ((0 < x \<and> take 4 first = ascii ''1000'') \<or> (x < 0 \<and> take 5 first = ascii ''-1000''))
       \<longrightarrow>
       shortScale_format exponentFormatter fixedFormatter (Fin (real p)) (Fin x)
         = (if idx < 4 then suffixed fixedFormatter (Fin x) (idx + 1)
            else exponentFormatter (Fin x))) \<and>
   (p \<le> 20 \<longrightarrow>
      (\<exists>r. format_with (shortScale (Fin (real p))) (Num (Fin x)) = Inr r \<and>
           (0 < x \<longrightarrow> take 4 r \<noteq> ascii ''1000'') \<and>
           (x < 0 \<longrightarrow> take 5 r \<noteq> ascii ''-1000'')))"
proof -
  have vp: "p \<le> 20 \<Longrightarrow> verifyPrecision (Fin (real p)) = Inr ()"
    by (simp add: verifyPrecision_def strict_neq_def del: ascii_simps)
  have a: "format_with (shortScale (Fin 3)) (Num (Fin 999999)) = Inr (ascii ''999.999K'')"
    by (rule shortScale_values)
  have b: "let idx = find_idx (Fin \<bar>x\<bar>) (- 1);
        first = (if idx = - 1 then fixedFormatter (Fin x)
                 else suffixed fixedFormatter (Fin x) idx)
    in (x = 0 \<or> (10 powi (- int p) \<le> \<bar>x\<bar> \<and> \<bar>x\<bar> < 10 ^ 18)) \<and>
       ((0 < x \<and> take 4 first = ascii ''1000'') \<or> (x < 0 \<and> take 5 first = ascii ''-1000''))
       \<longrightarrow>
       shortScale_format exponentFormatter fixedFormatter (Fin (real p)) (Fin x)
         = (if idx < 4 then suffixed fixedFormatter (Fin x) (idx + 1)
            else exponentFormatter (Fin x))"
    unfolding shortScale_format_Fin Let_def by (simp del: ascii_simps)
  have c: "p \<le> 20 \<Longrightarrow>
      (\<exists>r. format_with (shortScale (Fin (real p))) (Num (Fin x)) = Inr r \<and>
           (0 < x \<longrightarrow> take 4 r \<noteq> ascii ''1000'') \<and>
           (x < 0 \<longrightarrow> take 5 r \<noteq> ascii ''-1000''))"
    using shortScale_d3_not_1000 [of x p]
    by (simp add: format_with_def shortScale_def vp del: ascii_simps)
  show ?thesis using a b c by blast
qed

theorem shortScale_bumps_1000_witness:
  "take 4 (suffixed (d3_format_f 0) (Fin 999999) 0) = ascii ''1000'' \<and>
   shortScale_format (d3_format_e 0) (d3_format_f 0) (Fin 0) (Fin 999999) = ascii ''1M'' \<and>
   format_with (shortScale (Fin 0)) (Num (Fin 999999)) = Inr (ascii ''1M'')"
proof -
  have f: "suffixed (d3_format_f 0) (Fin 999999) 0 = ascii ''1000K''"
    "suffixed (d3_format_f 0) (Fin 999999) 1 = ascii ''1M''"
    by (simp_all add: suffixed_def suffixes_def d3_format_f_values)
  show ?thesis
    using shortScale_bumps_1000 [of 999999 "d3_format_f 0" 0 "d3_format_e 0"] f
    by (simp add: find_idx_values shortScale_values power_int_minus)
qed

subsection \<open>percentage of one tenth\<close>

text \<open>
  The double that the literal \<open>0.1\<close> denotes is \<open>3602879701896397 / 2^55\<close>, the nearest
  one to a tenth, and \<open>toString\<close> prints it as \<open>0.1\<close>; \<open>Fin (1 / 10)\<close> stands for it.
  Its product with 100 differs from 10 by less than \<open>2^-50\<close>, half the distance between
  neighbouring doubles around 10, so the platform's product \<open>0.1 * 100\<close> is 10.  The
  product \<open>10 * 10\<close> and the quotient \<open>100 / 10\<close> are exact.
\<close>

lemma ieee_tenth_times_100:
  "\<bar>3602879701896397 / 2 ^ 55 - 1 / (10::real)\<bar> < 1 / 2 ^ 57"
  "\<bar>3602879701896397 / 2 ^ 55 * 100 - (10::real)\<bar> < 1 / 2 ^ 50"
  by simp_all

lemma toString_tenth:
  "Number_toString (Fin (1 / 10)) = ascii ''0.1''"
  "Number_toString (Fin 100) = ascii ''100''"
  by (simp_all add: toString_pos_def decimal_exponent_def digits.simps shortest_k.simps Let_def
      frac_shift.simps replicate_small)

lemma indexOf_point: "indexOf [48, 46, 49] 46 = 1"
  by (simp add: indexOf_def)

lemma parseInt_100: "parseInt [49, 48, 48] = Fin 100"
  by (simp add: parseInt_def digits_value_def)

lemma toFixed_10: "Number_toFixed (Fin 10) 0 = [49, 48]"
  by (simp add: toFixed_digits_def digits.simps Let_def)

text \<open>
  Claim C9.  \<open>percentage(0)(0.1)\<close> is exactly \<open>10%\<close>, for every multiplication and
  division that give \<open>0.1 * 100 = 10\<close>, \<open>10 * 10 = 100\<close> and \<open>100 / 10 = 10\<close>, as those
  of IEEE-754 doubles do: the string \<open>0.1\<close> has one digit after the point, the scale is
  \<open>10^1\<close>, and \<open>parseInt("100") / 10\<close> is formatted with no decimals.
\<close>

theorem percentage_one_tenth:
  assumes "mul (1 / 10) 100 = 10" and "mul 10 10 = 100" and "dv 100 10 = 10"
  shows "format_with (percentage mul dv (Fin 0)) (Num (Fin (1 / 10))) = Inr (ascii ''10%'')"
  unfolding format_with_def percentage_def fixed_def Let_def
  using assms
  by (simp add: toString_tenth indexOf_point parseInt_100 toFixed_10
      del: Number_toString.simps Number_toFixed.simps)

theorem percentage_one_tenth_witness:
  "format_with (percentage (*) (/) (Fin 0)) (Num (Fin (1 / 10))) = Inr (ascii ''10%'')"
proof -
  have h: "(1 / 10) * 100 = (10::real)" "(10::real) * 10 = 100" "(100::real) / 10 = 10"
    by simp_all
  show ?thesis
    using percentage_one_tenth [where mul = "(*)" and dv = "(/)", OF h] .
qed

subsection \<open>Further properties of the scale and of currency\<close>

text \<open>
  The single-valued domain \<open>[5, 5]\<close> of a scale with base 10 expands to \<open>[0.5, 50]\<close>.
\<close>

theorem expandSingleValueDomain_5:
  "expandSingleValueDomain (Log 10 4) (5, 5) = (1 / 2, 50)"
  by (simp add: expandSingleValueDomain_def Log_def Let_def)

text \<open>
  For a domain with positive bounds and a base whose logarithm is a nonzero number both loop
  bounds are finite and the generator returns.
\<close>

theorem logTickGenerator_returns:
  assumes "0 < fst (getDomain s)" and "0 < snd (getDomain s)" and "0 < base s"
    and "lg (base s) \<noteq> 0"
  shows "logTickGenerator lg dv native s \<noteq> None"
proof -
  obtain a c where "tick_i lg dv s = Fin a" "tick_j lg dv s = Fin c"
    using assms by (simp add: tick_i_def tick_j_def Math_log_def)
  then show ?thesis
    by (simp add: logTickGenerator_def powerTicks_def)
qed

theorem logTickGenerator_returns_witness:
  "logTickGenerator ln (/) (\<lambda>d n. []) (Log 10 1) \<noteq> None"
proof -
  have h: "0 < fst (getDomain (Log 10 1))" "0 < snd (getDomain (Log 10 1))"
    "0 < base (Log 10 1)" "ln (base (Log 10 1)) \<noteq> 0"
    by (simp_all add: Log_def Let_def defaultExtent_def getDomain_def backingScaleDomain_get_def)
  show ?thesis
    using logTickGenerator_returns [where lg = ln and dv = "(/)" and s = "Log 10 1", OF h]
    by simp
qed

text \<open>
  For a domain whose lower bound is 0, with a positive upper bound and a base whose logarithm
  is positive, \<open>i\<close> is \<open>-Infinity\<close>, which \<open>++i\<close> leaves unchanged: the loop of the
  generator does not end and no ticks are returned.
\<close>

theorem logTickGenerator_zero_bound_diverges:
  assumes "getDomain s = (0, hi)" and "0 < hi" and "0 < base s" and "0 < lg (base s)"
  shows "logTickGenerator lg dv native s = None"
proof -
  have "tick_i lg dv s = NegInf"
    using assms by (simp add: tick_i_def Math_log_def)
  moreover obtain c where "tick_j lg dv s = Fin c"
    using assms by (simp add: tick_j_def Math_log_def)
  ultimately show ?thesis
    by (simp add: logTickGenerator_def powerTicks_def)
qed

theorem logTickGenerator_zero_bound_diverges_witness:
  "logTickGenerator ln (/) (\<lambda>d n. [])
     \<lparr>base = 10, minimumNumberOfTicks = 4,
      d3Scale = \<lparr>d3_base = 10, d3_domain = (0, 10), d3_range = (0, 1)\<rparr>\<rparr>
   = None"
proof -
  let ?s = "\<lparr>base = 10, minimumNumberOfTicks = 4,
      d3Scale = \<lparr>d3_base = 10, d3_domain = (0, 10), d3_range = (0, 1)\<rparr>\<rparr>"
  have h: "getDomain ?s = (0, 10)" "(0::real) < 10" "0 < base ?s" "0 < ln (base ?s)"
    by (simp_all add: getDomain_def backingScaleDomain_get_def)
  show ?thesis
    using logTickGenerator_zero_bound_diverges [where lg = ln and dv = "(/)" and s = ?s, OF h]
    by simp
qed

text \<open>\<open>currency(2, "$", true)(-5)\<close> is \<open>-$5.00\<close>: the sign stands before the symbol.\<close>

theorem currency_negative_five:
  "format_with (currency (Fin 2) (ascii ''$'') True) (Num (Fin (- 5))) = Inr (ascii ''-$5.00'')"
proof -
  have "verifyPrecision (Fin 2) = Inr ()"
    by (simp add: verifyPrecision_def strict_neq_def del: ascii_simps)
  moreover have "Number_toFixed (Fin 5) 2 = ascii ''5.00''"
    by (simp add: toFixed_digits_def digits.simps Let_def)
  ultimately show ?thesis
    by (simp add: format_with_def currency_def fixed_def)
qed

end
